theory Spec2Isabelle
  imports Complex_Main
begin

section \<open>Numbers\<close>

text \<open>
  A JavaScript number that is not NaN: a finite double or one of the two infinities.
  The program only compares such numbers and takes minima and maxima of them, which
  is exact on doubles, so a finite double is modelled by the real it denotes.
\<close>

datatype coord = NegInfinity | Finite real | PosInfinity

text \<open>
  The result of \<^verbatim>\<open>parseFloat\<close> on a CSV cell, and the type of
  the \<^verbatim>\<open>latitude\<close> and \<^verbatim>\<open>longitude\<close> fields handed to a worker.
\<close>

datatype number = NaN | Num coord

text \<open>The JavaScript comparisons \<^verbatim>\<open><\<close> and \<^verbatim>\<open><=\<close> on numbers that are not NaN.\<close>

fun lt :: "coord \<Rightarrow> coord \<Rightarrow> bool" where
  "lt NegInfinity b = (b \<noteq> NegInfinity)"
| "lt (Finite a) NegInfinity = False"
| "lt (Finite a) (Finite b) = (a < b)"
| "lt (Finite a) PosInfinity = True"
| "lt PosInfinity b = False"

definition le :: "coord \<Rightarrow> coord \<Rightarrow> bool" where
  "le a b = (lt a b \<or> a = b)"

fun isNaN :: "number \<Rightarrow> bool" where
  "isNaN NaN = True"
| "isNaN (Num c) = False"

section \<open>Data model (spatialIndex.ts)\<close>

text \<open>
  A GeoJSON position is a pair (longitude, latitude); the coordinates read from a
  shapefile are finite doubles. A Polygon holds a list of rings, a MultiPolygon a
  list of polygons.
\<close>

type_synonym position = "real \<times> real"

datatype GeoJSONGeometry =
  Polygon "position list list"
| MultiPolygon "position list list list"

record CensusTract =
  geoid :: string
  geometry :: GeoJSONGeometry

text \<open>The field \<^verbatim>\<open>id\<close> of an RBush item is named \<open>item_id\<close> here.\<close>

record RBushItem =
  minX :: real
  minY :: real
  maxX :: real
  maxY :: real
  item_id :: nat

text \<open>
  The R-tree of the library RBush is kept as the list of the items it stores, in the
  order in which a search visits them. \<open>bbox\<close> is the tuple
  \<^verbatim>\<open>[minX, minY, maxX, maxY]\<close>.
\<close>

type_synonym bounds = "real \<times> real \<times> real \<times> real"

record SpatialIndex =
  index :: "RBushItem list"
  tracts :: "CensusTract list"
  items :: "RBushItem list"
  bbox :: bounds

text \<open>A raised JavaScript exception, with its message.\<close>

datatype exn = Error string | TypeError string

fun message :: "exn \<Rightarrow> string" where
  "message (Error m) = m"
| "message (TypeError m) = m"

text \<open>
  The two library functions the program calls, taken as parameters:
  \<^item> \<^verbatim>\<open>index.load(items)\<close> of RBush: it raises (\<open>Inl\<close> with the message) or returns
    the tree, here the items in search order;
  \<^item> \<^verbatim>\<open>booleanPointInPolygon(point([lon, lat]), geometry)\<close> of Turf: it raises or
    answers the containment test.
\<close>

type_synonym rbush_load = "RBushItem list \<Rightarrow> string + RBushItem list"

type_synonym point_in_polygon = "coord \<times> coord \<Rightarrow> GeoJSONGeometry \<Rightarrow> string + bool"

section \<open>Loading the tracts (loadCensusTractShapefiles)\<close>

text \<open>
  \<^verbatim>\<open>extractAllCoordinates\<close>: \<^verbatim>\<open>processCoordinates\<close> descends through the nested arrays
  and pushes every position it reaches, in order; an empty array contributes nothing.
\<close>

fun extractAllCoordinates :: "GeoJSONGeometry \<Rightarrow> position list" where
  "extractAllCoordinates (Polygon rings) = concat rings"
| "extractAllCoordinates (MultiPolygon polygons) = concat (map concat polygons)"

text \<open>One pass of the loop body that widens a running box by a position.\<close>

fun widen :: "position \<Rightarrow> bounds \<Rightarrow> bounds" where
  "widen (lon, lat) (x0, y0, x1, y1) = (min x0 lon, min y0 lat, max x1 lon, max y1 lat)"

definition extractBounds :: "GeoJSONGeometry \<Rightarrow> bounds" where
  "extractBounds g =
     (case extractAllCoordinates g of
        [] \<Rightarrow> (0, 0, 0, 0)
      | c # cs \<Rightarrow> fold widen (c # cs) (fst c, snd c, fst c, snd c))"

text \<open>The test \<^verbatim>\<open>/^\d{11}$/\<close>: exactly eleven characters, each an ASCII digit.\<close>

definition isDigit :: "char \<Rightarrow> bool" where
  "isDigit c = (c \<in> set ''0123456789'')"

definition validGeoid :: "string \<Rightarrow> bool" where
  "validGeoid s = (length s = 11 \<and> list_all isDigit s)"

text \<open>
  A feature read from a shapefile: its properties (the keys in the order of
  \<^verbatim>\<open>Object.keys\<close>, each value as \<^verbatim>\<open>String\<close> renders it) and its geometry, which is
  \<^verbatim>\<open>null\<close> for a null shape.
\<close>

record feature =
  properties :: "(string \<times> string) list"
  geometry_of :: "GeoJSONGeometry option"

text \<open>One call of \<^verbatim>\<open>source.read()\<close> before the end of the file: a feature, or a raise.\<close>

datatype read = Feature feature | ReadError string

text \<open>
  What is found in one entry of the data directory: listing it raises, it holds no
  \<^verbatim>\<open>.shp\<close> file, opening the file raises, or the file opens and yields its reads.
\<close>

datatype shp_source = ListingFails string | NoShp | OpenFails string | Opened "read list"

record dirent =
  name :: string
  isDirectory :: bool
  shp :: shp_source

definition startsWith :: "string \<Rightarrow> string \<Rightarrow> bool" where
  "startsWith p s = (take (length p) s = p)"

definition detectGeoidField :: "feature \<Rightarrow> string option" where
  "detectGeoidField f =
     find (\<lambda>k. k \<in> set [''GEOID'', ''GEOID20'', ''geoid'']) (map fst (properties f))"

text \<open>
  The identifier field in use at a feature: the one found earlier in the source, or
  else the one detected on this feature.
\<close>

definition resolveGeoidField :: "string option \<Rightarrow> feature \<Rightarrow> string option" where
  "resolveGeoidField geoidField f =
     (case geoidField of None \<Rightarrow> detectGeoidField f | Some k \<Rightarrow> Some k)"

definition propertyString :: "feature \<Rightarrow> string \<Rightarrow> string" where
  "propertyString f k = (case map_of (properties f) k of None \<Rightarrow> ''undefined'' | Some v \<Rightarrow> v)"

text \<open>
  The \<^verbatim>\<open>while\<close> loop over the features of one source. The accumulator is the tract
  list and the running global box. The loop ends at the end of the file, at a read
  that raises, at a first feature without identifier field (\<^verbatim>\<open>break\<close>), and at a
  feature whose geometry is \<^verbatim>\<open>null\<close> (a TypeError caught around the loop); what was
  pushed before stays.
\<close>

fun readFeatures ::
  "string option \<Rightarrow> read list \<Rightarrow> CensusTract list \<times> bounds \<Rightarrow> CensusTract list \<times> bounds"
where
  "readFeatures geoidField [] acc = acc"
| "readFeatures geoidField (ReadError m # rest) acc = acc"
| "readFeatures geoidField (Feature f # rest) (ts, bb) =
     (case resolveGeoidField geoidField f of
        None \<Rightarrow> (ts, bb)
      | Some k \<Rightarrow>
          (if \<not> validGeoid (propertyString f k) then readFeatures (Some k) rest (ts, bb)
           else
             (case geometry_of f of
                None \<Rightarrow> (ts, bb)
              | Some g \<Rightarrow>
                  readFeatures (Some k) rest
                    (ts @ [\<lparr>geoid = propertyString f k, geometry = g\<rparr>],
                     fold widen (extractAllCoordinates g) bb))))"

text \<open>The \<^verbatim>\<open>for\<close> loop over the entries of the data directory.\<close>

fun scanDirs ::
  "dirent list \<Rightarrow> CensusTract list \<times> bounds \<Rightarrow> string + CensusTract list \<times> bounds"
where
  "scanDirs [] acc = Inr acc"
| "scanDirs (d # ds) acc =
     (if \<not> isDirectory d \<or> \<not> startsWith ''state_'' (name d) then scanDirs ds acc
      else
        (case shp d of
           ListingFails m \<Rightarrow> Inl m
         | NoShp \<Rightarrow> scanDirs ds acc
         | OpenFails m \<Rightarrow> scanDirs ds acc
         | Opened reads \<Rightarrow> scanDirs ds (readFeatures None reads acc)))"

definition buildItems :: "CensusTract list \<Rightarrow> RBushItem list" where
  "buildItems ts =
     map (\<lambda>i. case extractBounds (geometry (ts ! i)) of
                 (x0, y0, x1, y1) \<Rightarrow>
                   \<lparr>minX = x0, minY = y0, maxX = x1, maxY = y1, item_id = i\<rparr>)
       [0..<length ts]"

text \<open>
  The whole load. The argument is the listing of the data directory (\<open>Inl\<close> when
  reading it raises). Every \<open>Inl\<close> result is the rejection of the promise, which
  \<^verbatim>\<open>main\<close> treats as fatal.
\<close>

definition loadCensusTractShapefiles ::
  "rbush_load \<Rightarrow> string + dirent list \<Rightarrow> exn + SpatialIndex"
where
  "loadCensusTractShapefiles rbushLoad listing =
     (case listing of
        Inl m \<Rightarrow> Inl (Error (''Failed to load shapefiles: '' @ m))
      | Inr dirs \<Rightarrow>
          (case scanDirs dirs ([], (180, 90, - 180, - 90)) of
             Inl m \<Rightarrow> Inl (Error (''Failed to load shapefiles: '' @ m))
           | Inr (ts, bb) \<Rightarrow>
               (if ts = [] then
                  Inl (Error ''No census tracts loaded. Run: npm run download-shapefiles'')
                else
                  (case rbushLoad (buildItems ts) of
                     Inl m \<Rightarrow> Inl (Error m)
                   | Inr tree \<Rightarrow>
                       Inr \<lparr>index = tree, tracts = ts, items = buildItems ts, bbox = bb\<rparr>))))"

section \<open>Matching a point (findTractForPoint)\<close>

text \<open>
  Modelled from the spec: the query of the spatial index (the library RBush is not
  part of the sources). \<^verbatim>\<open>index.search\<close> with the point as a degenerate box returns
  the stored items whose box intersects it, in the order of the tree.
\<close>

definition intersects :: "coord \<Rightarrow> coord \<Rightarrow> RBushItem \<Rightarrow> bool" where
  "intersects lon lat b =
     (le (Finite (minX b)) lon \<and> le (Finite (minY b)) lat \<and>
      le lon (Finite (maxX b)) \<and> le lat (Finite (maxY b)))"

definition search :: "RBushItem list \<Rightarrow> coord \<Rightarrow> coord \<Rightarrow> RBushItem list" where
  "search tree lon lat = filter (intersects lon lat) tree"

text \<open>
  The loop over the candidates. A containment test that raises is caught and the
  candidate skipped. An item whose id is no index of \<open>tracts\<close> makes \<^verbatim>\<open>tract\<close>
  undefined: reading \<^verbatim>\<open>tract.geometry\<close> raises inside the \<^verbatim>\<open>try\<close>, and the handler
  raises again on \<^verbatim>\<open>tract.geoid\<close>, so the function raises.
\<close>

fun testCandidates ::
  "point_in_polygon \<Rightarrow> coord \<times> coord \<Rightarrow> CensusTract list \<Rightarrow> RBushItem list \<Rightarrow> exn + string option"
where
  "testCandidates pip pt ts [] = Inr None"
| "testCandidates pip pt ts (item # rest) =
     (if item_id item < length ts then
        (case pip pt (geometry (ts ! item_id item)) of
           Inr True \<Rightarrow> Inr (Some (geoid (ts ! item_id item)))
         | Inr False \<Rightarrow> testCandidates pip pt ts rest
         | Inl m \<Rightarrow> testCandidates pip pt ts rest)
      else Inl (TypeError ''Cannot read properties of undefined''))"

text \<open>
  Every caller tests \<^verbatim>\<open>isNaN\<close> before the call, so the arguments are numbers that
  are not NaN. The point handed to the containment test is \<^verbatim>\<open>point([lon, lat])\<close>.
\<close>

definition findTractForPoint ::
  "point_in_polygon \<Rightarrow> coord \<Rightarrow> coord \<Rightarrow> SpatialIndex \<Rightarrow> exn + string option"
where
  "findTractForPoint pip lat lon spatialIndex =
     (if lt lat (Finite (- 90)) \<or> lt (Finite 90) lat \<or>
         lt lon (Finite (- 180)) \<or> lt (Finite 180) lon then Inr None
      else
        (case bbox spatialIndex of
           (b0, b1, b2, b3) \<Rightarrow>
             (if lt lon (Finite b0) \<or> lt (Finite b2) lon \<or>
                 lt lat (Finite b1) \<or> lt (Finite b3) lat then Inr None
              else
                testCandidates pip (lon, lat) (tracts spatialIndex)
                  (search (index spatialIndex) lon lat))))"

section \<open>The containment test\<close>

text \<open>
  Modelled from the spec: the exact containment test of the matcher (the library
  function \<^verbatim>\<open>booleanPointInPolygon\<close> is not part of the sources). It is the
  even-odd ray casting test of the design: a point is inside a polygon when it is
  inside the outer ring (ring 0) and inside none of the hole rings, and inside a
  multi-part polygon when it is inside one of its parts. A ring is a closed loop: its
  edges join each position to the next and the last position to the first (when the
  last position repeats the first, as in GeoJSON, that edge is a point and crosses
  nothing). A point has an odd number of crossings exactly when it is inside the loop,
  for every point that is not on the loop itself. This instance of the parameter is
  used where a theorem evaluates the program on concrete polygons.
\<close>

fun rayCrosses :: "real \<Rightarrow> real \<Rightarrow> position \<times> position \<Rightarrow> bool" where
  "rayCrosses x y ((xi, yi), (xj, yj)) =
     (((yi > y) \<noteq> (yj > y)) \<and> x < (xj - xi) * (y - yi) / (yj - yi) + xi)"

definition inRing :: "real \<Rightarrow> real \<Rightarrow> position list \<Rightarrow> bool" where
  "inRing x y ring = odd (length (filter (rayCrosses x y) (zip ring (rotate1 ring))))"

fun inPolygon :: "real \<Rightarrow> real \<Rightarrow> position list list \<Rightarrow> bool" where
  "inPolygon x y [] = False"
| "inPolygon x y (outer # holes) = (inRing x y outer \<and> \<not> list_ex (inRing x y) holes)"

text \<open>
  The point (x, y), longitude first, is interior to a geometry: inside the outer ring
  and outside all holes of the polygon, or of one part of a multi-part polygon.
\<close>

fun interior :: "real \<Rightarrow> real \<Rightarrow> GeoJSONGeometry \<Rightarrow> bool" where
  "interior x y (Polygon rings) = inPolygon x y rings"
| "interior x y (MultiPolygon polygons) = list_ex (inPolygon x y) polygons"

fun evenOddContains :: "coord \<times> coord \<Rightarrow> GeoJSONGeometry \<Rightarrow> string + bool" where
  "evenOddContains (Finite x, Finite y) g = Inr (interior x y g)"
| "evenOddContains pt g = Inr False"

section \<open>The worker (worker.ts)\<close>

text \<open>
  An address as the dispatcher sends it to a worker. The rows of an input file are
  kept in the same record, with \<open>latitude\<close> and \<open>longitude\<close> the results of
  \<^verbatim>\<open>parseFloat\<close> on the two cells.
\<close>

record address =
  address_id :: string
  latitude :: number
  longitude :: number

text \<open>
  \<^verbatim>\<open>ProcessResult\<close> in the worker, \<^verbatim>\<open>GeocodeResult\<close> in the pipeline. The id field is
  named \<open>result_id\<close> here; an absent \<^verbatim>\<open>error\<close> is \<open>None\<close>.
\<close>

record ProcessResult =
  result_id :: string
  census_tract_geoid :: "string option"
  error :: "string option"

text \<open>\<^verbatim>\<open>WorkerInput\<close>, with the three fields of its \<^verbatim>\<open>spatialIndex\<close> flattened.\<close>

record WorkerInput =
  addresses :: "address list"
  w_items :: "RBushItem list"
  w_tracts :: "CensusTract list"
  w_bbox :: bounds

text \<open>The body of the loop over the addresses of a chunk.\<close>

fun processAddress :: "point_in_polygon \<Rightarrow> SpatialIndex \<Rightarrow> address \<Rightarrow> ProcessResult" where
  "processAddress pip spatialIndex addr =
     (case (latitude addr, longitude addr) of
        (Num lat, Num lon) \<Rightarrow>
          (case findTractForPoint pip lat lon spatialIndex of
             Inr g \<Rightarrow>
               \<lparr>result_id = address_id addr, census_tract_geoid = g, error = None\<rparr>
           | Inl e \<Rightarrow>
               \<lparr>result_id = address_id addr, census_tract_geoid = None,
                error = Some (message e)\<rparr>)
      | _ \<Rightarrow>
          \<lparr>result_id = address_id addr, census_tract_geoid = None,
           error = Some ''invalid_coordinates''\<rparr>)"

definition processAddresses ::
  "rbush_load \<Rightarrow> point_in_polygon \<Rightarrow> WorkerInput \<Rightarrow> ProcessResult list"
where
  "processAddresses rbushLoad pip input =
     (case rbushLoad (w_items input) of
        Inl m \<Rightarrow>
          map (\<lambda>addr. \<lparr>result_id = address_id addr, census_tract_geoid = None,
                        error = Some (''index_error: '' @ m)\<rparr>)
            (addresses input)
      | Inr tree \<Rightarrow>
          map (processAddress pip
                 \<lparr>index = tree, tracts = w_tracts input, items = w_items input,
                  bbox = w_bbox input\<rparr>)
            (addresses input))"

section \<open>The pipeline (index.ts)\<close>

definition CHUNK_SIZE :: nat where
  "CHUNK_SIZE = 10000"

definition ROWS_PER_FILE :: nat where
  "ROWS_PER_FILE = 500000"

text \<open>
  A write stream made by \<^verbatim>\<open>createWriteStream\<close>: its path, the lines written to it
  (without the newline) and whether \<^verbatim>\<open>end()\<close> was called on it.
\<close>

record wstream =
  path :: string
  written :: "string list"
  ended :: bool

text \<open>
  The module's variables. \<open>streams\<close> holds every output stream created so far, and
  the handle \<open>outputFile\<close> is the position of the current one in it (\<open>None\<close> for
  \<^verbatim>\<open>null\<close>). \<open>unmatchedStream\<close> and \<open>logStream\<close> are the lines written to the two
  other streams. Of the log the model keeps the lines of \<^verbatim>\<open>openNewOutputFile\<close>, of the
  failure handlers and of the loop over the files, each without its timestamp and its
  leading mark.
\<close>

record state =
  totalProcessed :: nat
  totalMatched :: nat
  totalUnmatched :: nat
  totalErrors :: nat
  outputFile :: "nat option"
  outputFilePath :: "string option"
  outputRowCount :: nat
  currentOutputPart :: nat
  streams :: "wstream list"
  unmatchedStream :: "string list"
  logStream :: "string list"

text \<open>The function \<^verbatim>\<open>log\<close> of the source, named \<open>logMessage\<close> here.\<close>

definition logMessage :: "string \<Rightarrow> state \<Rightarrow> state" where
  "logMessage m s = s\<lparr>logStream := logStream s @ [m]\<rparr>"

text \<open>\<^verbatim>\<open>String(n)\<close> for a natural number, and \<^verbatim>\<open>padStart\<close>.\<close>

fun decimal :: "nat \<Rightarrow> string" where
  "decimal n =
     (if n < 10 then [''0123456789'' ! n]
      else decimal (n div 10) @ [''0123456789'' ! (n mod 10)])"

definition padStart :: "nat \<Rightarrow> char \<Rightarrow> string \<Rightarrow> string" where
  "padStart n c s = replicate (n - length s) c @ s"

definition getOutputFilePath :: "nat \<Rightarrow> string" where
  "getOutputFilePath partNumber =
     ''output/tracts_part_'' @ padStart 3 (CHR ''0'') (decimal partNumber) @ ''.csv''"

definition openNewOutputFile :: "state \<Rightarrow> state" where
  "openNewOutputFile s =
     (let olds = (case outputFile s of
                      None \<Rightarrow> streams s
                    | Some h \<Rightarrow> (streams s)[h := (streams s ! h)\<lparr>ended := True\<rparr>]);
          p = getOutputFilePath (currentOutputPart s)
      in logMessage (''Opened output file: '' @ p)
           (s\<lparr>outputFilePath := Some p,
              outputFile := Some (length olds),
              streams := olds @ [\<lparr>path = p, written = [''address_id,census_tract_geoid''],
                                    ended = False\<rparr>],
              outputRowCount := 0\<rparr>))"

text \<open>JavaScript truthiness of a string that may be \<^verbatim>\<open>null\<close> or absent.\<close>

fun truthy :: "string option \<Rightarrow> bool" where
  "truthy None = False"
| "truthy (Some v) = (v \<noteq> [])"

text \<open>How a template literal renders such a value, and the operator \<^verbatim>\<open>||\<close> on it.\<close>

fun render :: "string option \<Rightarrow> string" where
  "render None = ''null''"
| "render (Some v) = v"

definition orElse :: "string option \<Rightarrow> string \<Rightarrow> string" where
  "orElse v d = (if truthy v then render v else d)"

definition writeLine :: "string \<Rightarrow> state \<Rightarrow> state" where
  "writeLine l s =
     (case outputFile s of
        None \<Rightarrow> s
      | Some h \<Rightarrow>
          s\<lparr>streams := (streams s)[h := (streams s ! h)\<lparr>written := written (streams s ! h) @ [l]\<rparr>]\<rparr>)"

text \<open>The body of the loop of \<^verbatim>\<open>writeResults\<close>, for one result.\<close>

definition writeResult :: "ProcessResult \<Rightarrow> state \<Rightarrow> state" where
  "writeResult r s =
     (let s1 = (if outputRowCount s \<ge> ROWS_PER_FILE
                then openNewOutputFile (s\<lparr>currentOutputPart := currentOutputPart s + 1\<rparr>)
                else s);
          s2 = (if truthy (census_tract_geoid r) then
                  (writeLine (result_id r @ '','' @ render (census_tract_geoid r)) s1)
                    \<lparr>totalMatched := totalMatched s1 + 1\<rparr>
                else
                  (let s' = s1\<lparr>totalUnmatched := totalUnmatched s1 + 1\<rparr>
                   in if truthy (error r) then
                        s'\<lparr>unmatchedStream := unmatchedStream s' @
                             [result_id r @ '','' @
                              orElse (error r) ''no_match'']\<rparr>
                      else s'))
      in s2\<lparr>outputRowCount := outputRowCount s2 + 1, totalProcessed := totalProcessed s2 + 1\<rparr>)"

definition writeResults :: "ProcessResult list \<Rightarrow> state \<Rightarrow> state" where
  "writeResults results s =
     fold writeResult results (if outputFile s = None then openNewOutputFile s else s)"

text \<open>
  \<^verbatim>\<open>pool.run\<close>: it resolves with the worker's results or rejects with an error.
\<close>

type_synonym pool_run = "WorkerInput \<Rightarrow> string + ProcessResult list"

text \<open>The row test of the dispatcher.\<close>

fun invalidCoordinates :: "number \<Rightarrow> number \<Rightarrow> bool" where
  "invalidCoordinates (Num lat) (Num lon) =
     (lt lat (Finite (- 90)) \<or> lt (Finite 90) lat \<or>
      lt lon (Finite (- 180)) \<or> lt (Finite 180) lon)"
| "invalidCoordinates lat lon = True"

text \<open>
  Sending one chunk to the pool and writing its results, inside its \<^verbatim>\<open>try\<close>. The
  first argument is the text of the log line of the handler. The pair is
  \<^verbatim>\<open>processedCount\<close> and the module state.
\<close>

definition dispatchChunk ::
  "string \<Rightarrow> pool_run \<Rightarrow> SpatialIndex \<Rightarrow> address list \<Rightarrow> nat \<times> state \<Rightarrow> nat \<times> state"
where
  "dispatchChunk what run spatialIndex chunk cs =
     (case run \<lparr>addresses = chunk, w_items = items spatialIndex,
                 w_tracts = tracts spatialIndex, w_bbox = bbox spatialIndex\<rparr> of
        Inr results \<Rightarrow> (fst cs + length chunk, writeResults results (snd cs))
      | Inl e \<Rightarrow> (fst cs, logMessage (what @ e) (snd cs)))"

text \<open>
  The body of the \<^verbatim>\<open>readable\<close> loop, for one row. The triple adds \<^verbatim>\<open>chunkBuffer\<close>.
  The rows are handled in their order. A chunk that fills up is sent to the pool, and
  the model takes its results, or its failure, at that point. The source does not
  await its listener: after a full chunk is sent, the rows that follow are read, and
  the \<^verbatim>\<open>end\<close> handler may run, while that chunk is still with the pool. So the model
  gives the order of the effects exactly as long as no chunk fills up, that is for a
  file with fewer than \<open>CHUNK_SIZE\<close> valid rows; for a longer file it is the
  idealised run in which every full chunk is answered before the next row is read.
\<close>

definition readRecord ::
  "pool_run \<Rightarrow> SpatialIndex \<Rightarrow> address \<Rightarrow> address list \<times> nat \<times> state \<Rightarrow> address list \<times> nat \<times> state"
where
  "readRecord run spatialIndex record bcs =
     (case bcs of
        (chunkBuffer, processedCount, s) \<Rightarrow>
          (if invalidCoordinates (latitude record) (longitude record) then
             (chunkBuffer, processedCount,
              s\<lparr>totalErrors := totalErrors s + 1,
                unmatchedStream := unmatchedStream s @
                  [address_id record @ '',invalid_coordinates'']\<rparr>)
           else
             (if length (chunkBuffer @ [record]) \<ge> CHUNK_SIZE then
                (case dispatchChunk ''Error processing chunk: '' run spatialIndex
                        (chunkBuffer @ [record]) (processedCount, s) of
                   (processedCount', s') \<Rightarrow> ([], processedCount', s'))
              else (chunkBuffer @ [record], processedCount, s))))"

text \<open>
  An input file: its rows, and the error of the parser when it stops with one after
  them (then the \<^verbatim>\<open>end\<close> handler does not run and the promise is rejected). The
  \<^verbatim>\<open>end\<close> handler awaits the chunk of the remaining rows before it resolves the
  promise with \<^verbatim>\<open>processedCount\<close>.
\<close>

record csv_file =
  file_name :: string
  rows :: "address list"
  parse_error :: "string option"

definition processAddressFile ::
  "pool_run \<Rightarrow> SpatialIndex \<Rightarrow> csv_file \<Rightarrow> state \<Rightarrow> (string + nat) \<times> state"
where
  "processAddressFile run spatialIndex file s =
     (case fold (readRecord run spatialIndex) (rows file) ([], 0, s) of
        (chunkBuffer, processedCount, s1) \<Rightarrow>
          (case parse_error file of
             Some e \<Rightarrow> (Inl e, s1)
           | None \<Rightarrow>
               (if chunkBuffer \<noteq> [] then
                  (case dispatchChunk ''Error processing final chunk: '' run spatialIndex
                          chunkBuffer (processedCount, s1) of
                     (processedCount', s') \<Rightarrow> (Inr processedCount', s'))
                else (Inr processedCount, s1))))"

text \<open>The body of the loop of \<^verbatim>\<open>main\<close> over the address files, for one file.\<close>

definition processFile ::
  "pool_run \<Rightarrow> SpatialIndex \<Rightarrow> csv_file \<Rightarrow> nat \<times> state \<Rightarrow> nat \<times> state"
where
  "processFile run spatialIndex file ts =
     (case processAddressFile run spatialIndex file
             (logMessage (''Processing '' @ file_name file @ ''...'') (snd ts)) of
        (Inr n, s') \<Rightarrow>
          (fst ts + n,
           logMessage (''Processed '' @ decimal n @ '' addresses from '' @ file_name file) s')
      | (Inl e, s') \<Rightarrow> (fst ts, logMessage (''Error processing '' @ file_name file @ '': '' @ e) s'))"

text \<open>
  The module state when \<^verbatim>\<open>main\<close> has opened the log and the unmatched stream and
  written the header of the latter.
\<close>

definition initialState :: state where
  "initialState =
     \<lparr>totalProcessed = 0, totalMatched = 0, totalUnmatched = 0, totalErrors = 0,
      outputFile = None, outputFilePath = None, outputRowCount = 0,
      currentOutputPart = 1, streams = [],
      unmatchedStream = [''address_id,error_reason''], logStream = []\<rparr>"

text \<open>
  \<^verbatim>\<open>main\<close> from the load on: the exit code and the final state, whose counters the
  summary prints. The last step ends the current output stream.
\<close>

definition endOutput :: "state \<Rightarrow> state" where
  "endOutput s =
     (case outputFile s of
        None \<Rightarrow> s
      | Some h \<Rightarrow> s\<lparr>streams := (streams s)[h := (streams s ! h)\<lparr>ended := True\<rparr>]\<rparr>)"

definition processFiles :: "pool_run \<Rightarrow> SpatialIndex \<Rightarrow> csv_file list \<Rightarrow> state" where
  "processFiles run spatialIndex files =
     snd (fold (processFile run spatialIndex) files (0, openNewOutputFile initialState))"

definition main ::
  "rbush_load \<Rightarrow> pool_run \<Rightarrow> string + dirent list \<Rightarrow> csv_file list \<Rightarrow> nat \<times> state"
where
  "main rbushLoad run listing files =
     (case loadCensusTractShapefiles rbushLoad listing of
        Inl e \<Rightarrow> (1, logMessage (''Fatal error: '' @ message e) initialState)
      | Inr spatialIndex \<Rightarrow>
          (if files = [] then
             (1, logMessage ''No address files found matching pattern addresses_part_*.csv'' initialState)
           else (0, endOutput (processFiles run spatialIndex files))))"

section \<open>Notions used by the properties\<close>

text \<open>The data rows of an output partition: its lines after the header.\<close>

definition dataRows :: "wstream \<Rightarrow> string list" where
  "dataRows st = drop 1 (written st)"

text \<open>A row that the dispatcher rejects as \<^verbatim>\<open>invalid_coordinates\<close>.\<close>

definition invalidRow :: "address \<Rightarrow> bool" where
  "invalidRow a = invalidCoordinates (latitude a) (longitude a)"


definition balanced :: "state \<Rightarrow> bool" where
  "balanced s = (totalProcessed s = totalMatched s + totalUnmatched s)"

text \<open>
  The invariant of the sink: every output stream holds at most \<open>ROWS_PER_FILE\<close> data
  rows, and the handle of the current stream is one of the streams created, whose data
  rows number at most \<open>outputRowCount\<close>.
\<close>

definition sinkInv :: "state \<Rightarrow> bool" where
  "sinkInv s =
     (list_all (\<lambda>st. length (dataRows st) \<le> ROWS_PER_FILE) (streams s) \<and>
      (case outputFile s of
         None \<Rightarrow> True
       | Some h \<Rightarrow> h < length (streams s) \<and> length (dataRows (streams s ! h)) \<le> outputRowCount s))"

text \<open>All data rows written to the output partitions, in the order of the partitions.\<close>

definition allDataRows :: "state \<Rightarrow> string list" where
  "allDataRows s = concat (map dataRows (streams s))"

text \<open>A result with no GEOID and no error: a plain no-match.\<close>

definition unmatchedResult :: "address \<Rightarrow> ProcessResult" where
  "unmatchedResult a = \<lparr>result_id = address_id a, census_tract_geoid = None, error = None\<rparr>"

text \<open>A position lies in a box.\<close>

definition inBounds :: "bounds \<Rightarrow> position \<Rightarrow> bool" where
  "inBounds bb c = (case bb of (x0, y0, x1, y1) \<Rightarrow> x0 \<le> fst c \<and> fst c \<le> x1 \<and> y0 \<le> snd c \<and> snd c \<le> y1)"

text \<open>Every tract of a list carries an identifier of eleven digits.\<close>

definition allValid :: "CensusTract list \<Rightarrow> bool" where
  "allValid ts = list_all (\<lambda>t. validGeoid (geoid t)) ts"

text \<open>
  The running global box contains every coordinate of the tracts pushed so far.
\<close>

definition covered :: "CensusTract list \<times> bounds \<Rightarrow> bool" where
  "covered acc =
     (\<forall>t \<in> set (fst acc). \<forall>c \<in> set (extractAllCoordinates (geometry t)). inBounds (snd acc) c)"

text \<open>
  What the program relies on from RBush: a tree that loads holds exactly the items it
  was loaded with, so a search returns exactly those whose box intersects the query,
  in some order.
\<close>

definition treeKeepsItems :: "rbush_load \<Rightarrow> bool" where
  "treeKeepsItems rbushLoad = (\<forall>its tree. rbushLoad its = Inr tree \<longrightarrow> set tree = set its)"

text \<open>
  What the program relies on from \<^verbatim>\<open>booleanPointInPolygon\<close>: the test answers true at
  every point that is interior to the geometry.
\<close>

definition acceptsInterior :: "point_in_polygon \<Rightarrow> bool" where
  "acceptsInterior pip = (\<forall>x y g. interior x y g \<longrightarrow> pip (Finite x, Finite y) g = Inr True)"

section \<open>Example inputs\<close>

text \<open>The unit square of the spec's scenario, and a feature that carries it.\<close>

definition unitSquare :: "position list" where
  "unitSquare = [(0, 0), (0, 1), (1, 1), (1, 0), (0, 0)]"

definition squareFeature :: "string \<Rightarrow> feature" where
  "squareFeature g =
     \<lparr>properties = [(''STATEFP'', ''00''), (''GEOID'', g)],
      geometry_of = Some (Polygon [unitSquare])\<rparr>"

definition stateDir :: "read list \<Rightarrow> dirent" where
  "stateDir reads = \<lparr>name = ''state_00'', isDirectory = True, shp = Opened reads\<rparr>"

text \<open>The index that the load builds from the one square, with the items in their order.\<close>

definition squareIndex :: SpatialIndex where
  "squareIndex =
     \<lparr>index = [\<lparr>minX = 0, minY = 0, maxX = 1, maxY = 1, item_id = 0\<rparr>],
      tracts = [\<lparr>geoid = ''00000000001'', geometry = Polygon [unitSquare]\<rparr>],
      items = [\<lparr>minX = 0, minY = 0, maxX = 1, maxY = 1, item_id = 0\<rparr>],
      bbox = (0, 0, 1, 1)\<rparr>"

text \<open>A pool that runs the worker, and a pool whose run rejects.\<close>

definition workerPool :: pool_run where
  "workerPool input = Inr (processAddresses Inr evenOddContains input)"


text \<open>
  An index on which every search finds a candidate that is no tract, and a containment
  test that always raises: a lookup on them cannot return normally with a tract.
\<close>

definition poisonedIndex :: SpatialIndex where
  "poisonedIndex =
     \<lparr>index = [\<lparr>minX = - 1000, minY = - 1000, maxX = 1000, maxY = 1000, item_id = 7\<rparr>],
      tracts = [],
      items = [\<lparr>minX = - 1000, minY = - 1000, maxX = 1000, maxY = 1000, item_id = 7\<rparr>],
      bbox = (- 1000, - 1000, 1000, 1000)\<rparr>"

definition raisingTest :: point_in_polygon where
  "raisingTest pt g = Inl ''malformed geometry''"

definition oneRowFile :: "address \<Rightarrow> csv_file" where
  "oneRowFile a = \<lparr>file_name = ''addresses_part_001.csv'', rows = [a], parse_error = None\<rparr>"

definition mixedFile :: csv_file where
  "mixedFile =
     \<lparr>file_name = ''addresses_part_001.csv'',
      rows = [\<lparr>address_id = ''7'', latitude = Num (Finite (1 / 2)),
               longitude = Num (Finite (1 / 2))\<rparr>,
              \<lparr>address_id = ''789'', latitude = NaN, longitude = Num (Finite (1 / 2))\<rparr>],
      parse_error = None\<rparr>"

text \<open>
  Addresses: one outside the unit square, one inside it, and one beyond latitude 90.
\<close>

definition outsidePoint :: address where
  "outsidePoint = \<lparr>address_id = ''1234'', latitude = Num (Finite 2), longitude = Num (Finite 2)\<rparr>"

definition insidePoint :: address where
  "insidePoint = \<lparr>address_id = ''7'', latitude = Num (Finite (1 / 2)), longitude = Num (Finite (1 / 2))\<rparr>"

definition farPoint :: address where
  "farPoint = \<lparr>address_id = ''55'', latitude = Num (Finite 95), longitude = Num (Finite 0)\<rparr>"

text \<open>A worker input with two addresses.\<close>

definition farInput :: WorkerInput where
  "farInput = \<lparr>addresses = [insidePoint, farPoint], w_items = items squareIndex,
       w_tracts = tracts squareIndex, w_bbox = bbox squareIndex\<rparr>"





text \<open>
  Two tracts over the same unit square, as the load builds their index; a tract beyond
  latitude 90; a tract without coordinates; a source whose first feature has no
  identifier field.
\<close>

definition unitItem :: "nat \<Rightarrow> RBushItem" where
  "unitItem i = \<lparr>minX = 0, minY = 0, maxX = 1, maxY = 1, item_id = i\<rparr>"

definition overlapIndex :: SpatialIndex where
  "overlapIndex =
     \<lparr>index = [unitItem 0, unitItem 1],
      tracts = [\<lparr>geoid = ''00000000001'', geometry = Polygon [unitSquare]\<rparr>,
                \<lparr>geoid = ''00000000002'', geometry = Polygon [unitSquare]\<rparr>],
      items = [unitItem 0, unitItem 1],
      bbox = (0, 0, 1, 1)\<rparr>"

definition polarSquare :: "position list" where
  "polarSquare = [(0, 91), (0, 93), (1, 93), (1, 91), (0, 91)]"

definition polarFeature :: feature where
  "polarFeature =
     \<lparr>properties = [(''GEOID'', ''00000000004'')], geometry_of = Some (Polygon [polarSquare])\<rparr>"

definition polarIndex :: SpatialIndex where
  "polarIndex =
     \<lparr>index = [\<lparr>minX = 0, minY = 91, maxX = 1, maxY = 93, item_id = 0\<rparr>],
      tracts = [\<lparr>geoid = ''00000000004'', geometry = Polygon [polarSquare]\<rparr>],
      items = [\<lparr>minX = 0, minY = 91, maxX = 1, maxY = 93, item_id = 0\<rparr>],
      bbox = (0, 90, 1, 93)\<rparr>"

text \<open>
  A tract of two parts, the unit square and the square from (2, 0) to (3, 1), and the
  index that the load builds from it.
\<close>

definition twoParts :: GeoJSONGeometry where
  "twoParts = MultiPolygon [[unitSquare], [[(2, 0), (2, 1), (3, 1), (3, 0), (2, 0)]]]"

definition twoPartFeature :: feature where
  "twoPartFeature = \<lparr>properties = [(''GEOID'', ''00000000005'')], geometry_of = Some twoParts\<rparr>"

definition twoPartIndex :: SpatialIndex where
  "twoPartIndex =
     \<lparr>index = [\<lparr>minX = 0, minY = 0, maxX = 3, maxY = 1, item_id = 0\<rparr>],
      tracts = [\<lparr>geoid = ''00000000005'', geometry = twoParts\<rparr>],
      items = [\<lparr>minX = 0, minY = 0, maxX = 3, maxY = 1, item_id = 0\<rparr>],
      bbox = (0, 0, 3, 1)\<rparr>"

definition emptyFeature :: feature where
  "emptyFeature = \<lparr>properties = [(''GEOID'', ''00000000003'')], geometry_of = Some (Polygon [])\<rparr>"

definition emptyIndex :: SpatialIndex where
  "emptyIndex =
     \<lparr>index = [\<lparr>minX = 0, minY = 0, maxX = 0, maxY = 0, item_id = 0\<rparr>],
      tracts = [\<lparr>geoid = ''00000000003'', geometry = Polygon []\<rparr>],
      items = [\<lparr>minX = 0, minY = 0, maxX = 0, maxY = 0, item_id = 0\<rparr>],
      bbox = (180, 90, - 180, - 90)\<rparr>"

definition noFieldFeature :: feature where
  "noFieldFeature =
     \<lparr>properties = [(''STATEFP'', ''01''), (''NAME'', ''Tract 1'')],
      geometry_of = Some (Polygon [unitSquare])\<rparr>"

definition noFieldDir :: dirent where
  "noFieldDir = \<lparr>name = ''state_01'', isDirectory = True, shp = Opened [Feature noFieldFeature]\<rparr>"



section \<open>Properties\<close>

subsection \<open>Evaluation rules for concrete inputs\<close>

lemmas load_eval = loadCensusTractShapefiles_def stateDir_def squareFeature_def startsWith_def
  detectGeoidField_def resolveGeoidField_def propertyString_def validGeoid_def isDigit_def buildItems_def
  extractBounds_def unitSquare_def squareIndex_def

lemmas match_eval = findTractForPoint_def search_def intersects_def le_def inRing_def
  squareIndex_def unitSquare_def

lemmas pipeline_eval = processFiles_def processFile_def processAddressFile_def readRecord_def
  dispatchChunk_def writeResults_def writeResult_def writeLine_def openNewOutputFile_def
  getOutputFilePath_def padStart_def logMessage_def initialState_def oneRowFile_def CHUNK_SIZE_def
  ROWS_PER_FILE_def workerPool_def processAddresses_def orElse_def Let_def

subsection \<open>The range test of the matcher\<close>

text \<open>
  C8. For every latitude below -90 or above 90 and every longitude below -180 or above
  180, \<open>findTractForPoint\<close> returns no-match (\<open>Inr None\<close>, so it does not raise). It does
  so whatever the index and the containment test are: the result does not depend on
  them, since the function returns before the candidate lookup and the tests.
\<close>

theorem findTractForPoint_out_of_range:
  "lt lat (Finite (- 90)) \<or> lt (Finite 90) lat \<or> lt lon (Finite (- 180)) \<or> lt (Finite 180) lon
   \<Longrightarrow> findTractForPoint pip lat lon spatialIndex = Inr None"
  by (simp add: findTractForPoint_def)

text \<open>
  At latitude 91 the answer is no-match even on an index and a test whose lookup
  raises at a point in range.
\<close>

theorem findTractForPoint_out_of_range_witness:
  "lt (Finite 90) (Finite 91)
   \<and> findTractForPoint raisingTest (Finite 91) (Finite 0) poisonedIndex = Inr None
   \<and> findTractForPoint raisingTest (Finite 0) (Finite 0) poisonedIndex
       = Inl (TypeError ''Cannot read properties of undefined'')"
  using findTractForPoint_out_of_range [of "Finite 91" "Finite 0" raisingTest poisonedIndex]
  by (simp add: match_eval poisonedIndex_def raisingTest_def)

subsection \<open>The counters\<close>

lemma logMessage_counters [simp]:
  "totalProcessed (logMessage m s) = totalProcessed s"
  "totalMatched (logMessage m s) = totalMatched s"
  "totalUnmatched (logMessage m s) = totalUnmatched s"
  "totalErrors (logMessage m s) = totalErrors s"
  by (simp_all add: logMessage_def)

lemma openNewOutputFile_counters [simp]:
  "totalProcessed (openNewOutputFile s) = totalProcessed s"
  "totalMatched (openNewOutputFile s) = totalMatched s"
  "totalUnmatched (openNewOutputFile s) = totalUnmatched s"
  "totalErrors (openNewOutputFile s) = totalErrors s"
  by (simp_all add: openNewOutputFile_def Let_def)

lemma writeLine_counters [simp]:
  "totalProcessed (writeLine l s) = totalProcessed s"
  "totalMatched (writeLine l s) = totalMatched s"
  "totalUnmatched (writeLine l s) = totalUnmatched s"
  "totalErrors (writeLine l s) = totalErrors s"
  by (simp_all add: writeLine_def split: option.splits)

lemma writeResult_counters:
  "totalProcessed (writeResult r s) = totalProcessed s + 1"
  "totalMatched (writeResult r s) + totalUnmatched (writeResult r s)
     = totalMatched s + totalUnmatched s + 1"
  "totalErrors (writeResult r s) = totalErrors s"
  by (simp_all add: writeResult_def Let_def)

lemma fold_writeResult_counters:
  "totalProcessed (fold writeResult rs s) = totalProcessed s + length rs"
  "totalMatched (fold writeResult rs s) + totalUnmatched (fold writeResult rs s)
     = totalMatched s + totalUnmatched s + length rs"
  "totalErrors (fold writeResult rs s) = totalErrors s"
proof (induction rs arbitrary: s)
  case Nil
  { case 1 show ?case by simp }
  { case 2 show ?case by simp }
  { case 3 show ?case by simp }
next
  case (Cons r rs)
  { case 1 show ?case
      using Cons.IH(1) [of "writeResult r s"] by (simp add: writeResult_counters) }
  { case 2 show ?case
      using Cons.IH(2) [of "writeResult r s"] writeResult_counters(2) [of r s] by simp }
  { case 3 show ?case
      using Cons.IH(3) [of "writeResult r s"] by (simp add: writeResult_counters) }
qed

lemma writeResults_counters:
  "totalProcessed (writeResults rs s) = totalProcessed s + length rs"
  "totalMatched (writeResults rs s) + totalUnmatched (writeResults rs s)
     = totalMatched s + totalUnmatched s + length rs"
  "totalErrors (writeResults rs s) = totalErrors s"
  by (simp_all add: writeResults_def fold_writeResult_counters)

lemma writeResults_balanced: "balanced s \<Longrightarrow> balanced (writeResults rs s)"
  using writeResults_counters(1,2) [of rs s] by (simp add: balanced_def)

lemma logMessage_balanced [simp]: "balanced (logMessage m s) = balanced s"
  by (simp add: balanced_def)

lemma dispatchChunk_balanced:
  "balanced (snd cs) \<Longrightarrow> balanced (snd (dispatchChunk what run si chunk cs))"
  by (simp add: dispatchChunk_def writeResults_balanced split: sum.splits)

lemma dispatchChunk_errors:
  "totalErrors (snd (dispatchChunk what run si chunk cs)) = totalErrors (snd cs)"
  by (simp add: dispatchChunk_def writeResults_counters split: sum.splits)

lemma readRecord_balanced:
  "balanced (snd (snd bcs)) \<Longrightarrow> balanced (snd (snd (readRecord run si a bcs)))"
  using dispatchChunk_balanced
    [of "(fst (snd bcs), snd (snd bcs))" "''Error processing chunk: ''" run si "fst bcs @ [a]"]
  by (cases bcs) (auto simp: readRecord_def balanced_def split: prod.splits)

lemma readRecord_errors:
  "totalErrors (snd (snd (readRecord run si a bcs))) =
     totalErrors (snd (snd bcs)) + (if invalidRow a then 1 else 0)"
  using dispatchChunk_errors
    [of "''Error processing chunk: ''" run si "fst bcs @ [a]" "(fst (snd bcs), snd (snd bcs))"]
  by (cases bcs) (auto simp: readRecord_def invalidRow_def split: prod.splits)

lemma fold_readRecord_balanced:
  "balanced (snd (snd bcs)) \<Longrightarrow> balanced (snd (snd (fold (readRecord run si) rs bcs)))"
  by (induction rs arbitrary: bcs) (simp_all add: readRecord_balanced)

lemma fold_readRecord_errors:
  "totalErrors (snd (snd (fold (readRecord run si) rs bcs))) =
     totalErrors (snd (snd bcs)) + length (filter invalidRow rs)"
  by (induction rs arbitrary: bcs) (simp_all add: readRecord_errors)

lemma processAddressFile_balanced:
  "balanced s \<Longrightarrow> balanced (snd (processAddressFile run si csv s))"
  using fold_readRecord_balanced [of "([], 0, s)" run si "rows csv"]
    dispatchChunk_balanced
      [of "(fst (snd (fold (readRecord run si) (rows csv) ([], 0, s))),
            snd (snd (fold (readRecord run si) (rows csv) ([], 0, s))))"
          "''Error processing final chunk: ''" run si
          "fst (fold (readRecord run si) (rows csv) ([], 0, s))"]
  by (auto simp: processAddressFile_def split: prod.splits option.splits)

lemma processAddressFile_errors:
  "totalErrors (snd (processAddressFile run si csv s)) =
     totalErrors s + length (filter invalidRow (rows csv))"
  using fold_readRecord_errors [of run si "rows csv" "([], 0, s)"]
    dispatchChunk_errors
      [of "''Error processing final chunk: ''" run si
          "fst (fold (readRecord run si) (rows csv) ([], 0, s))"
          "(fst (snd (fold (readRecord run si) (rows csv) ([], 0, s))),
            snd (snd (fold (readRecord run si) (rows csv) ([], 0, s))))"]
  by (auto simp: processAddressFile_def split: prod.splits option.splits)

lemma processFile_balanced:
  "balanced (snd ts) \<Longrightarrow> balanced (snd (processFile run si csv ts))"
  using processAddressFile_balanced
    [of "logMessage (''Processing '' @ file_name csv @ ''...'') (snd ts)" run si csv]
  by (auto simp: processFile_def balanced_def split: prod.splits sum.splits)

lemma processFile_errors:
  "totalErrors (snd (processFile run si csv ts)) =
     totalErrors (snd ts) + length (filter invalidRow (rows csv))"
  using processAddressFile_errors
    [of run si csv "logMessage (''Processing '' @ file_name csv @ ''...'') (snd ts)"]
  by (auto simp: processFile_def split: prod.splits sum.splits)

lemma fold_processFile_balanced:
  "balanced (snd ts) \<Longrightarrow> balanced (snd (fold (processFile run si) files ts))"
  by (induction files arbitrary: ts) (simp_all add: processFile_balanced)

lemma fold_processFile_errors:
  "totalErrors (snd (fold (processFile run si) files ts)) =
     totalErrors (snd ts) + length (filter invalidRow (concat (map rows files)))"
  by (induction files arbitrary: ts) (simp_all add: processFile_errors)

lemma processFiles_balanced: "balanced (processFiles run si files)"
  using fold_processFile_balanced [of "(0, openNewOutputFile initialState)" run si files]
  by (simp add: processFiles_def balanced_def initialState_def)

lemma endOutput_counters [simp]:
  "totalProcessed (endOutput s) = totalProcessed s"
  "totalMatched (endOutput s) = totalMatched s"
  "totalUnmatched (endOutput s) = totalUnmatched s"
  "totalErrors (endOutput s) = totalErrors s"
  by (simp_all add: endOutput_def split: option.splits)

lemma main_balanced: "balanced (snd (main rbushLoad run listing files))"
  using processFiles_balanced [of run _ files]
  by (auto simp: main_def balanced_def initialState_def split: sum.splits)

text \<open>
  C1, as the spec states it, fails: one row whose latitude does not parse is counted
  as errored and written to the error channel, and it is not counted as processed, so
  processed is 0 while matched + unmatched + errored is 1.
\<close>

theorem counters_sum_counterexample:
  "(let s = processFiles workerPool squareIndex
             [oneRowFile \<lparr>address_id = ''789'', latitude = NaN, longitude = Num (Finite (1 / 2))\<rparr>]
    in totalProcessed s = 0 \<and> totalMatched s = 0 \<and> totalUnmatched s = 0 \<and> totalErrors s = 1
       \<and> unmatchedStream s = [''address_id,error_reason'', ''789,invalid_coordinates'']
       \<and> totalProcessed s \<noteq> totalMatched s + totalUnmatched s + totalErrors s)"
  by (simp add: pipeline_eval)

text \<open>
  C1, amended. For every run of the pipeline over any input files, with any behaviour
  of the pool: total processed = total matched + total unmatched, and total errored is
  the number of input rows rejected as \<^verbatim>\<open>invalid_coordinates\<close>, which are counted
  separately and not as processed. The first equation also holds in the final state
  of \<^verbatim>\<open>main\<close>, whether the load succeeds or not.
\<close>

theorem counters_balance:
  "totalProcessed (processFiles run si files) =
     totalMatched (processFiles run si files) + totalUnmatched (processFiles run si files)
   \<and> totalErrors (processFiles run si files) =
       length (filter invalidRow (concat (map rows files)))
   \<and> totalProcessed (snd (main rbushLoad run listing files)) =
       totalMatched (snd (main rbushLoad run listing files))
       + totalUnmatched (snd (main rbushLoad run listing files))"
  using processFiles_balanced [of run si files] main_balanced [of rbushLoad run listing files]
    fold_processFile_errors [of run si files "(0, openNewOutputFile initialState)"]
  by (simp add: processFiles_def balanced_def initialState_def)

text \<open>A file with one row that matches and one row that does not parse.\<close>

theorem counters_balance_witness:
  "(totalProcessed (processFiles workerPool squareIndex [mixedFile]) =
      totalMatched (processFiles workerPool squareIndex [mixedFile])
      + totalUnmatched (processFiles workerPool squareIndex [mixedFile])
    \<and> totalErrors (processFiles workerPool squareIndex [mixedFile]) =
        length (filter invalidRow (concat (map rows [mixedFile])))
    \<and> totalProcessed (snd (main Inr workerPool (Inr [stateDir [Feature (squareFeature ''00000000001'')]]) [mixedFile])) =
        totalMatched (snd (main Inr workerPool (Inr [stateDir [Feature (squareFeature ''00000000001'')]]) [mixedFile]))
        + totalUnmatched (snd (main Inr workerPool (Inr [stateDir [Feature (squareFeature ''00000000001'')]]) [mixedFile])))
   \<and> (let s = processFiles workerPool squareIndex [mixedFile]
      in totalProcessed s = 1 \<and> totalMatched s = 1 \<and> totalUnmatched s = 0 \<and> totalErrors s = 1)"
proof -
  have ev: "(let s = processFiles workerPool squareIndex [mixedFile]
      in totalProcessed s = 1 \<and> totalMatched s = 1 \<and> totalUnmatched s = 0 \<and> totalErrors s = 1)"
    by (simp add: pipeline_eval match_eval mixedFile_def)
  show ?thesis
    by (rule conjI [OF counters_balance ev])
qed

subsection \<open>The output partitions\<close>


lemma map_dataRows_end:
  "map dataRows (xs[h := (xs ! h)\<lparr>ended := True\<rparr>]) = map dataRows xs"
proof (cases "h < length xs")
  case True
  then show ?thesis
    by (simp add: map_update dataRows_def list_update_same_conv)
next
  case False
  then show ?thesis by (simp add: list_update_beyond)
qed

lemma allDataRows_logMessage [simp]: "allDataRows (logMessage m s) = allDataRows s"
  by (simp add: allDataRows_def logMessage_def)

lemma allDataRows_open [simp]: "allDataRows (openNewOutputFile s) = allDataRows s"
  by (simp add: allDataRows_def openNewOutputFile_def Let_def logMessage_def map_dataRows_end dataRows_def
      split: option.splits)

lemma allDataRows_updates [simp]:
  "allDataRows (s\<lparr>currentOutputPart := p\<rparr>) = allDataRows s"
  "allDataRows (s\<lparr>totalUnmatched := n\<rparr>) = allDataRows s"
  "allDataRows (s\<lparr>totalMatched := n\<rparr>) = allDataRows s"
  "allDataRows (s\<lparr>totalProcessed := n\<rparr>) = allDataRows s"
  "allDataRows (s\<lparr>totalErrors := n\<rparr>) = allDataRows s"
  "allDataRows (s\<lparr>outputRowCount := n\<rparr>) = allDataRows s"
  "allDataRows (s\<lparr>unmatchedStream := u\<rparr>) = allDataRows s"
  by (simp_all add: allDataRows_def)

lemma unmatchedStream_logMessage [simp]: "unmatchedStream (logMessage m s) = unmatchedStream s"
  by (simp add: logMessage_def)

lemma unmatchedStream_open [simp]: "unmatchedStream (openNewOutputFile s) = unmatchedStream s"
  by (simp add: openNewOutputFile_def Let_def)

lemma unmatchedStream_writeLine [simp]: "unmatchedStream (writeLine l s) = unmatchedStream s"
  by (simp add: writeLine_def split: option.splits)

lemma writeResult_no_geoid:
  "\<not> truthy (census_tract_geoid r) \<Longrightarrow>
   allDataRows (writeResult r s) = allDataRows s \<and>
   totalUnmatched (writeResult r s) = totalUnmatched s + 1 \<and>
   totalMatched (writeResult r s) = totalMatched s \<and>
   unmatchedStream (writeResult r s) =
     unmatchedStream s @ (if truthy (error r) then [result_id r @ '','' @ render (error r)] else [])"
  by (simp add: writeResult_def Let_def orElse_def)


lemma sinkInv_updates [simp]:
  "sinkInv (s\<lparr>currentOutputPart := p\<rparr>) = sinkInv s"
  "sinkInv (s\<lparr>totalUnmatched := n\<rparr>) = sinkInv s"
  "sinkInv (s\<lparr>totalMatched := n\<rparr>) = sinkInv s"
  "sinkInv (s\<lparr>totalProcessed := n\<rparr>) = sinkInv s"
  "sinkInv (s\<lparr>totalErrors := n\<rparr>) = sinkInv s"
  "sinkInv (s\<lparr>unmatchedStream := u\<rparr>) = sinkInv s"
  "sinkInv (logMessage m s) = sinkInv s"
  by (simp_all add: sinkInv_def logMessage_def split: option.splits)



lemma outputRowCount_open [simp]: "outputRowCount (openNewOutputFile s) = 0"
  by (simp add: openNewOutputFile_def Let_def logMessage_def)

lemma outputFile_writeLine [simp]: "outputFile (writeLine l s) = outputFile s"
  by (simp add: writeLine_def split: option.splits)

lemma outputRowCount_writeLine [simp]: "outputRowCount (writeLine l s) = outputRowCount s"
  by (simp add: writeLine_def split: option.splits)






















subsection \<open>Results without a GEOID\<close>

text \<open>
  C2, on the code: the point (2, 2) lies in no tract, the worker returns a result with
  no GEOID and no error, and the sink counts it as unmatched and writes no line for it,
  neither to the output partition nor to the error channel, where the claim has the
  line \<^verbatim>\<open>1234,no_match\<close>.
\<close>

theorem no_match_dropped:
  "processAddresses Inr evenOddContains
      \<lparr>addresses = [outsidePoint], w_items = items squareIndex, w_tracts = tracts squareIndex,
       w_bbox = bbox squareIndex\<rparr>
     = [\<lparr>result_id = ''1234'', census_tract_geoid = None, error = None\<rparr>]
   \<and> (let s = processFiles workerPool squareIndex [oneRowFile outsidePoint]
      in totalUnmatched s = 1 \<and> totalProcessed s = 1
         \<and> unmatchedStream s = [''address_id,error_reason'']
         \<and> map written (streams s) = [[''address_id,census_tract_geoid'']])"
  by (simp add: pipeline_eval match_eval outsidePoint_def)

text \<open>
  C10. For every address whose latitude and longitude are numbers (not NaN) outside
  the latitude or longitude range, the worker produces a result with no GEOID and no
  error, at the position of the address in the chunk, and the sink counts that result
  as unmatched and writes it nowhere: the error channel and the data rows of all output
  partitions are unchanged.
\<close>

theorem out_of_range_address_unwritten:
  assumes "latitude addr = Num lat" and "longitude addr = Num lon"
    and "lt lat (Finite (- 90)) \<or> lt (Finite 90) lat \<or> lt lon (Finite (- 180)) \<or> lt (Finite 180) lon"
  shows "processAddress pip si addr = unmatchedResult addr
     \<and> (rbushLoad (w_items input) = Inr tree \<and> i < length (addresses input)
          \<and> addresses input ! i = addr
        \<longrightarrow> processAddresses rbushLoad pip input ! i = unmatchedResult addr)
     \<and> totalUnmatched (writeResult (unmatchedResult addr) s) = totalUnmatched s + 1
     \<and> totalMatched (writeResult (unmatchedResult addr) s) = totalMatched s
     \<and> unmatchedStream (writeResult (unmatchedResult addr) s) = unmatchedStream s
     \<and> allDataRows (writeResult (unmatchedResult addr) s) = allDataRows s"
proof -
  have one: "processAddress pip si' addr = unmatchedResult addr" for si'
    using assms by (simp add: unmatchedResult_def findTractForPoint_def)
  have sink: "\<not> truthy (census_tract_geoid (unmatchedResult addr))"
    "\<not> truthy (error (unmatchedResult addr))"
    by (simp_all add: unmatchedResult_def)
  show ?thesis
    using one writeResult_no_geoid [OF sink(1), of s] sink(2)
    by (auto simp: processAddresses_def)
qed

text \<open>
  The address at latitude 95, second in its chunk.
\<close>

theorem out_of_range_address_unwritten_witness:
  "latitude farPoint = Num (Finite 95) \<and> longitude farPoint = Num (Finite 0)
   \<and> lt (Finite 90) (Finite 95)
   \<and> Inr (w_items farInput) = (Inr (w_items farInput) :: string + RBushItem list)
   \<and> 1 < length (addresses farInput) \<and> addresses farInput ! 1 = farPoint
   \<and> processAddresses Inr evenOddContains farInput ! 1
       = \<lparr>result_id = ''55'', census_tract_geoid = None, error = None\<rparr>
   \<and> unmatchedStream (writeResult (unmatchedResult farPoint) (openNewOutputFile initialState))
       = [''address_id,error_reason'']
   \<and> allDataRows (writeResult (unmatchedResult farPoint) (openNewOutputFile initialState)) = []
   \<and> totalUnmatched (writeResult (unmatchedResult farPoint) (openNewOutputFile initialState)) = 1"
proof -
  have h: "latitude farPoint = Num (Finite 95)" "longitude farPoint = Num (Finite 0)"
    "lt (Finite 90) (Finite 95)"
    "1 < length (addresses farInput)" "addresses farInput ! 1 = farPoint"
    by (simp_all add: farPoint_def farInput_def)
  have h3: "lt (Finite 95) (Finite (- 90)) \<or> lt (Finite 90) (Finite 95)
      \<or> lt (Finite 0) (Finite (- 180)) \<or> lt (Finite 180) (Finite 0)"
    by simp
  note t = out_of_range_address_unwritten [OF h(1) h(2) h3,
      of evenOddContains squareIndex Inr farInput "w_items farInput" 1
         "openNewOutputFile initialState"]
  have u: "unmatchedResult farPoint = \<lparr>result_id = ''55'', census_tract_geoid = None, error = None\<rparr>"
    by (simp add: unmatchedResult_def farPoint_def)
  have "allDataRows initialState = []"
    by (simp add: allDataRows_def initialState_def)
  then have s0: "unmatchedStream (openNewOutputFile initialState) = [''address_id,error_reason'']"
    "allDataRows (openNewOutputFile initialState) = []"
    "totalUnmatched (openNewOutputFile initialState) = 0"
    by (simp_all add: initialState_def)
  show ?thesis
    using t h u s0 by simp
qed

subsection \<open>Failures of a whole chunk\<close>





subsection \<open>What the load establishes\<close>

lemma inBounds_widen: "inBounds bb c \<Longrightarrow> inBounds (widen p bb) c"
  by (cases p; cases bb) (auto simp: inBounds_def)

lemma inBounds_widen_self: "inBounds (widen p bb) p"
  by (cases p; cases bb) (auto simp: inBounds_def)

lemma inBounds_fold_widen: "inBounds bb c \<Longrightarrow> inBounds (fold widen cs bb) c"
  by (induction cs arbitrary: bb) (simp_all add: inBounds_widen)

lemma inBounds_fold_widen_mem: "c \<in> set cs \<Longrightarrow> inBounds (fold widen cs bb) c"
proof (induction cs arbitrary: bb)
  case Nil
  then show ?case by simp
next
  case (Cons p cs)
  show ?case
  proof (cases "c = p")
    case True
    then show ?thesis
      using inBounds_fold_widen [OF inBounds_widen_self, of cs p bb] by simp
  next
    case False
    then show ?thesis
      using Cons.IH [of "widen p bb"] Cons.prems by simp
  qed
qed

lemma readFeatures_allValid:
  "allValid ts \<Longrightarrow> allValid (fst (readFeatures gf rs (ts, bb)))"
  by (induction gf rs "(ts, bb)" arbitrary: ts bb rule: readFeatures.induct)
    (auto simp: allValid_def split: option.splits)

lemma readFeatures_covered:
  "covered (ts, bb) \<Longrightarrow> covered (readFeatures gf rs (ts, bb))"
proof (induction rs arbitrary: gf ts bb)
  case Nil
  then show ?case by simp
next
  case (Cons r rest)
  show ?case
  proof (cases r)
    case (ReadError m)
    then show ?thesis using Cons.prems by simp
  next
    case (Feature f)
    show ?thesis
    proof (cases "resolveGeoidField gf f")
      case None
      then show ?thesis using Feature Cons.prems by simp
    next
      case (Some k)
      show ?thesis
      proof (cases "validGeoid (propertyString f k)")
        case False
        then show ?thesis using Feature Some Cons.IH [OF Cons.prems] by simp
      next
        case True
        show ?thesis
        proof (cases "geometry_of f")
          case None
          then show ?thesis using Feature \<open>resolveGeoidField gf f = Some k\<close> True Cons.prems by simp
        next
          case (Some g)
          have "covered (ts @ [\<lparr>geoid = propertyString f k, geometry = g\<rparr>],
                   fold widen (extractAllCoordinates g) bb)"
            using Cons.prems
            by (auto simp: covered_def inBounds_fold_widen inBounds_fold_widen_mem)
          then show ?thesis
            using Feature \<open>resolveGeoidField gf f = Some k\<close> True Some Cons.IH by simp
        qed
      qed
    qed
  qed
qed

lemma scanDirs_allValid:
  "scanDirs ds acc = Inr acc' \<Longrightarrow> allValid (fst acc) \<Longrightarrow> allValid (fst acc')"
proof (induction ds arbitrary: acc)
  case Nil
  then show ?case by simp
next
  case (Cons d ds)
  then show ?case
    using readFeatures_allValid [of "fst acc" None _ "snd acc"]
    by (cases acc) (auto split: if_splits shp_source.splits)
qed

lemma scanDirs_covered:
  "scanDirs ds acc = Inr acc' \<Longrightarrow> covered acc \<Longrightarrow> covered acc'"
proof (induction ds arbitrary: acc)
  case Nil
  then show ?case by simp
next
  case (Cons d ds)
  then show ?case
    using readFeatures_covered [of "fst acc" "snd acc" None]
    by (cases acc) (auto split: if_splits shp_source.splits)
qed

lemma load_Inr:
  assumes "loadCensusTractShapefiles rbushLoad listing = Inr si"
  shows "allValid (tracts si)" and "covered (tracts si, bbox si)"
    and "items si = buildItems (tracts si)" and "rbushLoad (items si) = Inr (index si)"
    and "tracts si \<noteq> []"
proof -
  obtain dirs ts bb tree where
    d: "listing = Inr dirs" "scanDirs dirs ([], (180, 90, - 180, - 90)) = Inr (ts, bb)"
      "ts \<noteq> []" "rbushLoad (buildItems ts) = Inr tree"
      "si = \<lparr>index = tree, tracts = ts, items = buildItems ts, bbox = bb\<rparr>"
    using assms
    by (auto simp: loadCensusTractShapefiles_def split: sum.splits prod.splits if_splits)
  show "allValid (tracts si)"
    using scanDirs_allValid [OF d(2)] d(5) by (simp add: allValid_def)
  show "covered (tracts si, bbox si)"
    using scanDirs_covered [OF d(2)] d(5) by (simp add: covered_def)
  show "items si = buildItems (tracts si)" "rbushLoad (items si) = Inr (index si)"
    "tracts si \<noteq> []"
    using d by simp_all
qed

subsection \<open>The items and the candidate loop\<close>

lemma length_buildItems [simp]: "length (buildItems ts) = length ts"
  by (simp add: buildItems_def)

lemma nth_buildItems:
  "i < length ts \<Longrightarrow>
   buildItems ts ! i =
     (case extractBounds (geometry (ts ! i)) of
        (x0, y0, x1, y1) \<Rightarrow> \<lparr>minX = x0, minY = y0, maxX = x1, maxY = y1, item_id = i\<rparr>)"
  by (simp add: buildItems_def)

lemma item_id_buildItems: "it \<in> set (buildItems ts) \<Longrightarrow> item_id it < length ts"
  by (auto simp: buildItems_def split: prod.splits)

lemma testCandidates_Some:
  "testCandidates pip pt ts cs = Inr (Some g) \<Longrightarrow>
   \<exists>it \<in> set cs. item_id it < length ts \<and> g = geoid (ts ! item_id it)
      \<and> pip pt (geometry (ts ! item_id it)) = Inr True"
  by (induction cs) (auto split: if_splits sum.splits bool.splits)

lemma testCandidates_no_raise:
  "\<forall>it \<in> set cs. item_id it < length ts \<Longrightarrow> testCandidates pip pt ts cs \<noteq> Inl e"
  by (induction cs) (auto split: sum.splits bool.splits)

lemma testCandidates_first:
  "\<forall>it \<in> set cs. item_id it < length ts \<Longrightarrow>
   \<exists>it \<in> set cs. pip pt (geometry (ts ! item_id it)) = Inr True \<Longrightarrow>
   \<forall>it \<in> set cs. pip pt (geometry (ts ! item_id it)) = Inr True \<longrightarrow> geoid (ts ! item_id it) = g \<Longrightarrow>
   testCandidates pip pt ts cs = Inr (Some g)"
  by (induction cs) (auto split: sum.splits bool.splits)

lemma fold_widen_attained:
  "fold widen cs (a, b, c, d) = (a', b', c', d') \<Longrightarrow>
   (a' = a \<or> a' \<in> fst ` set cs) \<and> (b' = b \<or> b' \<in> snd ` set cs) \<and>
   (c' = c \<or> c' \<in> fst ` set cs) \<and> (d' = d \<or> d' \<in> snd ` set cs)"
proof (induction cs arbitrary: a b c d)
  case Nil
  then show ?case by simp
next
  case (Cons p cs)
  obtain lon lat where p: "p = (lon, lat)" by (cases p)
  have "fold widen cs (min a lon, min b lat, max c lon, max d lat) = (a', b', c', d')"
    using Cons.prems p by simp
  from Cons.IH [OF this] show ?case
    unfolding p by (auto simp: min_def max_def split: if_splits)
qed

lemma extractBounds_attained:
  assumes "extractAllCoordinates g \<noteq> []" and "extractBounds g = (x0, y0, x1, y1)"
  shows "x0 \<in> fst ` set (extractAllCoordinates g)" "y0 \<in> snd ` set (extractAllCoordinates g)"
    "x1 \<in> fst ` set (extractAllCoordinates g)" "y1 \<in> snd ` set (extractAllCoordinates g)"
proof -
  obtain c cs where cs: "extractAllCoordinates g = c # cs"
    using assms(1) by (cases "extractAllCoordinates g") auto
  have "fold widen (c # cs) (fst c, snd c, fst c, snd c) = (x0, y0, x1, y1)"
    using assms(2) cs by (simp add: extractBounds_def)
  from fold_widen_attained [OF this]
  show "x0 \<in> fst ` set (extractAllCoordinates g)" "y0 \<in> snd ` set (extractAllCoordinates g)"
    "x1 \<in> fst ` set (extractAllCoordinates g)" "y1 \<in> snd ` set (extractAllCoordinates g)"
    unfolding cs by auto
qed

lemma le_Finite_between:
  "le (Finite m) p \<Longrightarrow> le p (Finite n) \<Longrightarrow> \<exists>x. p = Finite x \<and> m \<le> x \<and> x \<le> n"
  by (cases p) (auto simp: le_def)

lemma item_in_global:
  assumes cov: "covered (ts, bb)" and i: "i < length ts"
    and ne: "extractAllCoordinates (geometry (ts ! i)) \<noteq> []"
    and box: "intersects lon lat (buildItems ts ! i)"
  shows "\<exists>x y. lon = Finite x \<and> lat = Finite y \<and> inBounds bb (x, y)"
proof -
  obtain x0 y0 x1 y1 where eb: "extractBounds (geometry (ts ! i)) = (x0, y0, x1, y1)"
    by (cases "extractBounds (geometry (ts ! i))") auto
  have it: "buildItems ts ! i = \<lparr>minX = x0, minY = y0, maxX = x1, maxY = y1, item_id = i\<rparr>"
    using nth_buildItems [OF i] eb by simp
  obtain x where x: "lon = Finite x" "x0 \<le> x" "x \<le> x1"
    using box le_Finite_between [of x0 lon x1] by (auto simp: intersects_def it)
  obtain y where y: "lat = Finite y" "y0 \<le> y" "y \<le> y1"
    using box le_Finite_between [of y0 lat y1] by (auto simp: intersects_def it)
  have mem: "ts ! i \<in> set ts" using i by simp
  have all: "\<forall>c \<in> set (extractAllCoordinates (geometry (ts ! i))). inBounds bb c"
    using cov mem by (auto simp: covered_def)
  obtain b0 b1 b2 b3 where bb: "bb = (b0, b1, b2, b3)" by (cases bb) auto
  note at = extractBounds_attained [OF ne eb]
  have "b0 \<le> x0" using at(1) all by (auto simp: inBounds_def bb)
  moreover have "b1 \<le> y0" using at(2) all by (auto simp: inBounds_def bb)
  moreover have "x1 \<le> b2" using at(3) all by (auto simp: inBounds_def bb)
  moreover have "y1 \<le> b3" using at(4) all by (auto simp: inBounds_def bb)
  ultimately have "inBounds bb (x, y)"
    using x y by (simp add: inBounds_def bb)
  then show ?thesis using x(1) y(1) by blast
qed

lemma candidates_in_range:
  assumes "loadCensusTractShapefiles rbushLoad listing = Inr si" and "treeKeepsItems rbushLoad"
  shows "set (index si) = set (buildItems (tracts si))"
    and "\<forall>it \<in> set (search (index si) lon lat). item_id it < length (tracts si)"
proof -
  note l = load_Inr [OF assms(1)]
  show eq: "set (index si) = set (buildItems (tracts si))"
    using l(3,4) assms(2) by (auto simp: treeKeepsItems_def)
  show "\<forall>it \<in> set (search (index si) lon lat). item_id it < length (tracts si)"
    using eq item_id_buildItems by (auto simp: search_def)
qed

lemma findTractForPoint_Some:
  "findTractForPoint pip lat lon si = Inr (Some g) \<Longrightarrow>
   testCandidates pip (lon, lat) (tracts si) (search (index si) lon lat) = Inr (Some g)"
  by (cases "bbox si") (simp add: findTractForPoint_def split: if_splits)

subsection \<open>Interior points and bounding boxes\<close>

text \<open>
  A closed loop is crossed an even number of times by any line, and an edge is crossed
  by the ray only between its end points. So a point with an odd number of crossings
  lies within the extent of the positions of the ring, in both coordinates.
\<close>

lemma crossing_parity:
  fixes f :: "'a \<Rightarrow> bool"
  shows "odd (length (filter (\<lambda>(a, b). f a \<noteq> f b) (zip (p # rest) (rest @ [e])))) = (f p \<noteq> f e)"
proof (induction rest arbitrary: p)
  case Nil
  then show ?case by simp
next
  case (Cons c rest)
  show ?case
    using Cons.IH [of c] by auto
qed

lemma cyclic_crossings_even:
  fixes f :: "'a \<Rightarrow> bool"
  shows "even (length (filter (\<lambda>(a, b). f a \<noteq> f b) (zip ring (rotate1 ring))))"
proof (cases ring)
  case Nil
  then show ?thesis by simp
next
  case (Cons p rest)
  then show ?thesis
    using crossing_parity [of f p rest p] by simp
qed

lemma intercept_between:
  fixes x0 x1 y0 y1 y :: real
  assumes "(y0 > y) \<noteq> (y1 > y)"
  shows "min x0 x1 \<le> (x1 - x0) * (y - y0) / (y1 - y0) + x0"
    and "(x1 - x0) * (y - y0) / (y1 - y0) + x0 \<le> max x0 x1"
proof -
  define t where "t = (y - y0) / (y1 - y0)"
  have t: "0 \<le> t \<and> t \<le> 1"
    using assms by (auto simp: t_def field_simps)
  have eq: "(x1 - x0) * (y - y0) / (y1 - y0) + x0 = x0 + t * (x1 - x0)"
    by (simp add: t_def)
  show "min x0 x1 \<le> (x1 - x0) * (y - y0) / (y1 - y0) + x0"
  proof (cases "x0 \<le> x1")
    case True
    then have "0 \<le> t * (x1 - x0)" using t by simp
    then show ?thesis using True unfolding eq by simp
  next
    case False
    then have "(1 - t) * (x1 - x0) \<le> 0"
      using t by (intro mult_nonneg_nonpos) auto
    then have "x1 \<le> x0 + t * (x1 - x0)"
      by (simp add: algebra_simps)
    then show ?thesis using False unfolding eq by simp
  qed
  show "(x1 - x0) * (y - y0) / (y1 - y0) + x0 \<le> max x0 x1"
  proof (cases "x0 \<le> x1")
    case True
    then have "0 \<le> (1 - t) * (x1 - x0)"
      using t by (intro mult_nonneg_nonneg) auto
    then have "x0 + t * (x1 - x0) \<le> x1"
      by (simp add: algebra_simps)
    then show ?thesis using True unfolding eq by simp
  next
    case False
    then have "t * (x1 - x0) \<le> 0"
      using t by (intro mult_nonneg_nonpos) auto
    then show ?thesis using False unfolding eq by simp
  qed
qed

lemma rayCrosses_facts:
  assumes "rayCrosses x y (p, q)"
  shows "x < max (fst p) (fst q)" and "min (snd p) (snd q) \<le> y" and "y < max (snd p) (snd q)"
proof -
  obtain xi yi xj yj where pq: "p = (xi, yi)" "q = (xj, yj)"
    by (cases p; cases q) auto
  have c: "(yi > y) \<noteq> (yj > y)" and lt: "x < (xj - xi) * (y - yi) / (yj - yi) + xi"
    using assms pq by simp_all
  show "x < max (fst p) (fst q)"
    using lt intercept_between(2) [OF c, where ?x0.0 = xi and ?x1.0 = xj] pq by simp
  show "min (snd p) (snd q) \<le> y" "y < max (snd p) (snd q)"
    using c pq by auto
qed

lemma rayCrosses_left:
  assumes "x < fst p" and "x < fst q"
  shows "rayCrosses x y (p, q) = ((snd p > y) \<noteq> (snd q > y))"
proof -
  obtain xi yi xj yj where pq: "p = (xi, yi)" "q = (xj, yj)"
    by (cases p; cases q) auto
  show ?thesis
  proof (cases "(yi > y) \<noteq> (yj > y)")
    case True
    have "x < min xi xj" using assms pq by simp
    then have "x < (xj - xi) * (y - yi) / (yj - yi) + xi"
      using intercept_between(1) [OF True, where ?x0.0 = xi and ?x1.0 = xj] by linarith
    then show ?thesis using True pq by simp
  next
    case False
    then show ?thesis using pq by simp
  qed
qed

lemma inRing_extent:
  assumes "inRing x y ring"
  shows "\<exists>a \<in> set ring. fst a \<le> x" and "\<exists>b \<in> set ring. x \<le> fst b"
    and "\<exists>c \<in> set ring. snd c \<le> y" and "\<exists>d \<in> set ring. y \<le> snd d"
proof -
  have odd: "odd (length (filter (rayCrosses x y) (zip ring (rotate1 ring))))"
    using assms by (simp add: inRing_def)
  then have "filter (rayCrosses x y) (zip ring (rotate1 ring)) \<noteq> []"
    by auto
  then obtain e where e: "e \<in> set (zip ring (rotate1 ring))" "rayCrosses x y e"
    by (metis filter_False)
  obtain p q where pq: "e = (p, q)" by (cases e)
  have mem: "p \<in> set ring" "q \<in> set ring"
    using e(1) pq set_zip_leftD [of p q ring "rotate1 ring"]
      set_zip_rightD [of p q ring "rotate1 ring"] by auto
  note f = rayCrosses_facts [OF e(2) [unfolded pq]]
  show "\<exists>b \<in> set ring. x \<le> fst b"
    using f(1) mem by (cases "fst p \<le> fst q") (auto simp: max_def intro: less_imp_le)
  show "\<exists>c \<in> set ring. snd c \<le> y"
    using f(2) mem by (cases "snd p \<le> snd q") (auto simp: min_def)
  show "\<exists>d \<in> set ring. y \<le> snd d"
    using f(3) mem by (cases "snd p \<le> snd q") (auto simp: max_def intro: less_imp_le)
  show "\<exists>a \<in> set ring. fst a \<le> x"
  proof (rule ccontr)
    assume "\<not> (\<exists>a \<in> set ring. fst a \<le> x)"
    then have left: "\<forall>a \<in> set ring. x < fst a" by auto
    have "filter (rayCrosses x y) (zip ring (rotate1 ring))
        = filter (\<lambda>(a, b). (snd a > y) \<noteq> (snd b > y)) (zip ring (rotate1 ring))"
    proof (rule filter_cong [OF refl])
      fix e' assume e': "e' \<in> set (zip ring (rotate1 ring))"
      obtain p' q' where pq': "e' = (p', q')" by (cases e')
      have "p' \<in> set ring" "q' \<in> set ring"
        using e' pq' set_zip_leftD [of p' q' ring "rotate1 ring"]
          set_zip_rightD [of p' q' ring "rotate1 ring"] by auto
      then show "rayCrosses x y e' = (case e' of (a, b) \<Rightarrow> (snd a > y) \<noteq> (snd b > y))"
        using rayCrosses_left [of x p' q' y] left pq' by simp
    qed
    then show False
      using odd cyclic_crossings_even [of "\<lambda>a. snd a > y" ring] by simp
  qed
qed

text \<open>
  A point interior to a geometry lies within the extent of the positions that
  \<open>extractAllCoordinates\<close> collects from it, hence in the box that \<open>extractBounds\<close>
  computes and that the load stores as the item of the tract.
\<close>

lemma inPolygon_extent:
  assumes "inPolygon x y rings"
  shows "\<exists>a \<in> set (concat rings). fst a \<le> x" and "\<exists>b \<in> set (concat rings). x \<le> fst b"
    and "\<exists>c \<in> set (concat rings). snd c \<le> y" and "\<exists>d \<in> set (concat rings). y \<le> snd d"
proof -
  obtain outer holes where r: "rings = outer # holes" and o: "inRing x y outer"
    using assms by (cases rings) auto
  note e = inRing_extent [OF o]
  show "\<exists>a \<in> set (concat rings). fst a \<le> x" using e(1) r by auto
  show "\<exists>b \<in> set (concat rings). x \<le> fst b" using e(2) r by auto
  show "\<exists>c \<in> set (concat rings). snd c \<le> y" using e(3) r by auto
  show "\<exists>d \<in> set (concat rings). y \<le> snd d" using e(4) r by auto
qed

lemma interior_extent:
  assumes "interior x y g"
  shows "\<exists>a \<in> set (extractAllCoordinates g). fst a \<le> x"
    and "\<exists>b \<in> set (extractAllCoordinates g). x \<le> fst b"
    and "\<exists>c \<in> set (extractAllCoordinates g). snd c \<le> y"
    and "\<exists>d \<in> set (extractAllCoordinates g). y \<le> snd d"
proof -
  have "(\<exists>a \<in> set (extractAllCoordinates g). fst a \<le> x)
      \<and> (\<exists>b \<in> set (extractAllCoordinates g). x \<le> fst b)
      \<and> (\<exists>c \<in> set (extractAllCoordinates g). snd c \<le> y)
      \<and> (\<exists>d \<in> set (extractAllCoordinates g). y \<le> snd d)"
  proof (cases g)
    case (Polygon rings)
    then show ?thesis
      using assms inPolygon_extent [of x y rings] by simp
  next
    case (MultiPolygon polygons)
    then obtain rings where p: "rings \<in> set polygons" "inPolygon x y rings"
      using assms by (auto simp: list_ex_iff)
    have sub: "set (concat rings) \<subseteq> set (extractAllCoordinates g)"
      using p(1) MultiPolygon by auto
    show ?thesis
      using inPolygon_extent [OF p(2)] sub by blast
  qed
  then show "\<exists>a \<in> set (extractAllCoordinates g). fst a \<le> x"
    and "\<exists>b \<in> set (extractAllCoordinates g). x \<le> fst b"
    and "\<exists>c \<in> set (extractAllCoordinates g). snd c \<le> y"
    and "\<exists>d \<in> set (extractAllCoordinates g). y \<le> snd d"
    by blast+
qed

lemma extractBounds_covers:
  "c \<in> set (extractAllCoordinates g) \<Longrightarrow> inBounds (extractBounds g) c"
proof -
  assume m: "c \<in> set (extractAllCoordinates g)"
  then obtain d ds where cs: "extractAllCoordinates g = d # ds"
    by (cases "extractAllCoordinates g") auto
  have "inBounds (fold widen (d # ds) (fst d, snd d, fst d, snd d)) c"
    using m unfolding cs by (rule inBounds_fold_widen_mem)
  then show ?thesis
    unfolding extractBounds_def cs by simp
qed

lemma interior_in_item_box:
  assumes i: "i < length ts" and int: "interior x y (geometry (ts ! i))"
  shows "intersects (Finite x) (Finite y) (buildItems ts ! i)"
    and "extractAllCoordinates (geometry (ts ! i)) \<noteq> []"
proof -
  obtain x0 y0 x1 y1 where eb: "extractBounds (geometry (ts ! i)) = (x0, y0, x1, y1)"
    by (cases "extractBounds (geometry (ts ! i))") auto
  have it: "buildItems ts ! i = \<lparr>minX = x0, minY = y0, maxX = x1, maxY = y1, item_id = i\<rparr>"
    using nth_buildItems [OF i] eb by simp
  note e = interior_extent [OF int]
  have cov: "x0 \<le> fst c \<and> fst c \<le> x1 \<and> y0 \<le> snd c \<and> snd c \<le> y1"
    if "c \<in> set (extractAllCoordinates (geometry (ts ! i)))" for c
    using extractBounds_covers [OF that] eb by (simp add: inBounds_def)
  have "x0 \<le> x" using e(1) cov by force
  moreover have "x \<le> x1" using e(2) cov by force
  moreover have "y0 \<le> y" using e(3) cov by force
  moreover have "y \<le> y1" using e(4) cov by force
  ultimately show "intersects (Finite x) (Finite y) (buildItems ts ! i)"
    by (auto simp: intersects_def it le_def)
  show "extractAllCoordinates (geometry (ts ! i)) \<noteq> []"
    using e(1) by auto
qed

subsection \<open>The matcher on a loaded index\<close>

text \<open>
  C9. On every index built by the load, every identifier that \<open>findTractForPoint\<close>
  returns, for any point and any containment test, is eleven ASCII digits; so is every
  GEOID in the results of a worker that is handed the data of that index.
\<close>

theorem returned_geoid_valid:
  assumes "loadCensusTractShapefiles rbushLoad listing = Inr si" and "treeKeepsItems rbushLoad"
  shows "(findTractForPoint pip lat lon si = Inr (Some g) \<longrightarrow> validGeoid g)
    \<and> (\<forall>r \<in> set (processAddresses rbushLoad pip
                    \<lparr>addresses = as, w_items = items si, w_tracts = tracts si, w_bbox = bbox si\<rparr>).
         \<forall>g'. census_tract_geoid r = Some g' \<longrightarrow> validGeoid g')"
proof -
  note l = load_Inr [OF assms(1)]
  have valid: "validGeoid (geoid (tracts si ! j))" if "j < length (tracts si)" for j
    using l(1) that by (simp add: allValid_def list_all_length)
  have match: "validGeoid g'"
    if "findTractForPoint pip la lo si' = Inr (Some g')" and "tracts si' = tracts si" for la lo si' g'
  proof -
    from testCandidates_Some [OF findTractForPoint_Some [OF that(1)]] show ?thesis
      using valid that(2) by auto
  qed
  have first: "findTractForPoint pip lat lon si = Inr (Some g) \<longrightarrow> validGeoid g"
    using match [of lat lon si g] by simp
  have second: "validGeoid g'"
    if r: "r \<in> set (processAddresses rbushLoad pip
                    \<lparr>addresses = as, w_items = items si, w_tracts = tracts si, w_bbox = bbox si\<rparr>)"
      and g': "census_tract_geoid r = Some g'" for r g'
  proof -
    obtain a where a: "a \<in> set as"
      "r = processAddress pip \<lparr>index = index si, tracts = tracts si, items = items si, bbox = bbox si\<rparr> a"
      using r g' l(4) by (auto simp: processAddresses_def)
    show ?thesis
      using a(2) g'
        match [of _ _ "\<lparr>index = index si, tracts = tracts si, items = items si, bbox = bbox si\<rparr>" g']
      by (auto split: number.splits sum.splits)
  qed
  show ?thesis using first second by blast
qed

text \<open>
  The tract of the unit square, matched by a direct call and by the worker.
\<close>

theorem returned_geoid_valid_witness:
  "loadCensusTractShapefiles Inr (Inr [stateDir [Feature (squareFeature ''00000000001'')]])
     = Inr squareIndex
   \<and> treeKeepsItems Inr
   \<and> findTractForPoint evenOddContains (Finite (1 / 2)) (Finite (1 / 2)) squareIndex
       = Inr (Some ''00000000001'')
   \<and> validGeoid ''00000000001''
   \<and> processAddresses Inr evenOddContains
        \<lparr>addresses = [insidePoint], w_items = items squareIndex, w_tracts = tracts squareIndex,
         w_bbox = bbox squareIndex\<rparr>
       = [\<lparr>result_id = ''7'', census_tract_geoid = Some ''00000000001'', error = None\<rparr>]"
proof -
  have h1: "loadCensusTractShapefiles Inr (Inr [stateDir [Feature (squareFeature ''00000000001'')]])
     = Inr squareIndex"
    by (simp add: load_eval)
  have h2: "treeKeepsItems Inr"
    by (simp add: treeKeepsItems_def)
  have h3: "findTractForPoint evenOddContains (Finite (1 / 2)) (Finite (1 / 2)) squareIndex
       = Inr (Some ''00000000001'')"
    by (simp add: match_eval)
  have v: "validGeoid ''00000000001''"
    using returned_geoid_valid [OF h1 h2, of evenOddContains "Finite (1 / 2)" "Finite (1 / 2)"
        "''00000000001''" "[insidePoint]"] h3
    by blast
  have h5: "processAddresses Inr evenOddContains
        \<lparr>addresses = [insidePoint], w_items = items squareIndex, w_tracts = tracts squareIndex,
         w_bbox = bbox squareIndex\<rparr>
       = [\<lparr>result_id = ''7'', census_tract_geoid = Some ''00000000001'', error = None\<rparr>]"
    by (simp add: processAddresses_def match_eval insidePoint_def)
  show ?thesis
    using h1 h2 h3 v h5 by (intro conjI)
qed

text \<open>
  C6, as the spec states it, fails. Two loaded tracts cover the same unit square: the
  point (0.5, 0.5) is strictly inside the second one, and the matcher returns the
  identifier of the first. And a tract that lies beyond latitude 90 contains points
  for which the matcher answers no-match on the range test.
\<close>

theorem interior_point_counterexample:
  "loadCensusTractShapefiles Inr
      (Inr [stateDir [Feature (squareFeature ''00000000001''), Feature (squareFeature ''00000000002'')]])
     = Inr overlapIndex
   \<and> geoid (tracts overlapIndex ! 1) = ''00000000002''
   \<and> evenOddContains (Finite (1 / 2), Finite (1 / 2)) (geometry (tracts overlapIndex ! 1)) = Inr True
   \<and> findTractForPoint evenOddContains (Finite (1 / 2)) (Finite (1 / 2)) overlapIndex
       = Inr (Some ''00000000001'')
   \<and> loadCensusTractShapefiles Inr (Inr [stateDir [Feature polarFeature]]) = Inr polarIndex
   \<and> evenOddContains (Finite (1 / 2), Finite 92) (geometry (tracts polarIndex ! 0)) = Inr True
   \<and> findTractForPoint evenOddContains (Finite 92) (Finite (1 / 2)) polarIndex = Inr None"
  by (simp add: load_eval match_eval unitItem_def overlapIndex_def polarSquare_def
      polarFeature_def polarIndex_def)

text \<open>
  C6, amended. Let P be a loaded polygon and let a point within the latitude and
  longitude range be interior to P: inside the outer ring of P and outside its holes,
  or so for one part of a multi-part P. If every loaded polygon that passes the
  containment test at that point carries the identifier of P, then \<open>findTractForPoint\<close>
  returns the identifier of P. The bounding-box filter never loses P: the range test
  of the index, the box of the item and the search all let the point through.
\<close>

theorem interior_point_matched:
  assumes load: "loadCensusTractShapefiles rbushLoad listing = Inr si"
    and tree: "treeKeepsItems rbushLoad"
    and test: "acceptsInterior pip"
    and i: "i < length (tracts si)"
    and dom: "- 90 \<le> y \<and> y \<le> 90 \<and> - 180 \<le> x \<and> x \<le> 180"
    and int: "interior x y (geometry (tracts si ! i))"
    and only: "\<forall>j < length (tracts si).
        pip (Finite x, Finite y) (geometry (tracts si ! j)) = Inr True \<longrightarrow>
        geoid (tracts si ! j) = geoid (tracts si ! i)"
  shows "findTractForPoint pip (Finite y) (Finite x) si = Inr (Some (geoid (tracts si ! i)))"
proof -
  note l = load_Inr [OF load]
  note c = candidates_in_range(1) [OF load tree]
    candidates_in_range(2) [OF load tree, of "Finite x" "Finite y"]
  note b = interior_in_item_box [OF i int]
  have inside: "pip (Finite x, Finite y) (geometry (tracts si ! i)) = Inr True"
    using test int by (simp add: acceptsInterior_def)
  obtain x' y' where xy: "Finite x = Finite x'" "Finite y = Finite y'" "inBounds (bbox si) (x', y')"
    using item_in_global [OF l(2) i b(2) b(1)] by blast
  obtain b0 b1 b2 b3 where bb: "bbox si = (b0, b1, b2, b3)" by (cases "bbox si") auto
  have quick: "\<not> (lt (Finite x) (Finite b0) \<or> lt (Finite b2) (Finite x) \<or>
                 lt (Finite y) (Finite b1) \<or> lt (Finite b3) (Finite y))"
    using xy bb by (auto simp: inBounds_def)
  have itm: "buildItems (tracts si) ! i \<in> set (search (index si) (Finite x) (Finite y))"
    using c(1) b(1) i by (auto simp: search_def)
  have idi: "item_id (buildItems (tracts si) ! i) = i"
    using nth_buildItems [OF i] by (auto split: prod.splits)
  have ex: "\<exists>it \<in> set (search (index si) (Finite x) (Finite y)).
      pip (Finite x, Finite y) (geometry (tracts si ! item_id it)) = Inr True"
    using itm idi inside by (intro bexI [of _ "buildItems (tracts si) ! i"]) simp_all
  have un: "\<forall>it \<in> set (search (index si) (Finite x) (Finite y)).
      pip (Finite x, Finite y) (geometry (tracts si ! item_id it)) = Inr True \<longrightarrow>
      geoid (tracts si ! item_id it) = geoid (tracts si ! i)"
    using c(2) only by blast
  have "testCandidates pip (Finite x, Finite y) (tracts si) (search (index si) (Finite x) (Finite y))
      = Inr (Some (geoid (tracts si ! i)))"
    using testCandidates_first
      [of "search (index si) (Finite x) (Finite y)" "tracts si" pip "(Finite x, Finite y)"
          "geoid (tracts si ! i)"]
      c(2) ex un by blast
  then show ?thesis
    using dom quick bb by (simp add: findTractForPoint_def)
qed

text \<open>
  A tract of two parts and the point (2.5, 0.5), interior to its second part.
\<close>

theorem interior_point_matched_witness:
  "loadCensusTractShapefiles Inr (Inr [stateDir [Feature twoPartFeature]]) = Inr twoPartIndex
   \<and> treeKeepsItems Inr
   \<and> acceptsInterior evenOddContains
   \<and> 0 < length (tracts twoPartIndex)
   \<and> interior (5 / 2) (1 / 2) (geometry (tracts twoPartIndex ! 0))
   \<and> findTractForPoint evenOddContains (Finite (1 / 2)) (Finite (5 / 2)) twoPartIndex
       = Inr (Some (geoid (tracts twoPartIndex ! 0)))
   \<and> geoid (tracts twoPartIndex ! 0) = ''00000000005''"
proof -
  have h1: "loadCensusTractShapefiles Inr (Inr [stateDir [Feature twoPartFeature]]) = Inr twoPartIndex"
    by (simp add: load_eval twoPartFeature_def twoParts_def twoPartIndex_def)
  have h2: "treeKeepsItems Inr"
    by (simp add: treeKeepsItems_def)
  have h3: "acceptsInterior evenOddContains"
    by (simp add: acceptsInterior_def)
  have h4: "0 < length (tracts twoPartIndex)"
    by (simp add: twoPartIndex_def)
  have h5: "- 90 \<le> (1 / 2 :: real) \<and> (1 / 2 :: real) \<le> 90 \<and> - 180 \<le> (5 / 2 :: real) \<and> (5 / 2 :: real) \<le> 180"
    by simp
  have h6: "interior (5 / 2) (1 / 2) (geometry (tracts twoPartIndex ! 0))"
    by (simp add: twoPartIndex_def twoParts_def unitSquare_def inRing_def)
  have h7: "\<forall>j < length (tracts twoPartIndex).
        evenOddContains (Finite (5 / 2), Finite (1 / 2)) (geometry (tracts twoPartIndex ! j)) = Inr True \<longrightarrow>
        geoid (tracts twoPartIndex ! j) = geoid (tracts twoPartIndex ! 0)"
    by (simp add: twoPartIndex_def)
  have c: "findTractForPoint evenOddContains (Finite (1 / 2)) (Finite (5 / 2)) twoPartIndex
       = Inr (Some (geoid (tracts twoPartIndex ! 0)))"
    by (rule interior_point_matched
          [where pip = evenOddContains and x = "5 / 2" and y = "1 / 2" and i = 0,
           OF h1 h2 h3 h4 h5 h6 h7])
  have g: "geoid (tracts twoPartIndex ! 0) = ''00000000005''"
    by (simp add: twoPartIndex_def)
  show ?thesis
    using h1 h2 h3 h4 h6 c g by (intro conjI)
qed

subsection \<open>Records that the load keeps, skips or abandons\<close>

text \<open>
  C5, as the spec states it, fails: a record with a valid identifier whose polygon has
  no rings is loaded, and the index holds a box for it.
\<close>

theorem ringless_polygon_counterexample:
  "extractAllCoordinates (Polygon []) = []
   \<and> loadCensusTractShapefiles Inr (Inr [stateDir [Feature emptyFeature]]) = Inr emptyIndex
   \<and> tracts emptyIndex = [\<lparr>geoid = ''00000000003'', geometry = Polygon []\<rparr>]
   \<and> index emptyIndex = [\<lparr>minX = 0, minY = 0, maxX = 0, maxY = 0, item_id = 0\<rparr>]"
  by (simp add: load_eval emptyFeature_def emptyIndex_def)

text \<open>
  C5, amended. A record with a valid identifier whose geometry yields no coordinate
  pairs is kept: the loop pushes it on the tract list and leaves the global box as it
  is, and the item built for it is the box [0, 0, 0, 0] with its index as id, which
  the tree holds.
\<close>

theorem ringless_polygon_kept:
  "(resolveGeoidField gf f = Some k \<and> validGeoid (propertyString f k) \<and> geometry_of f = Some g
      \<and> extractAllCoordinates g = [] \<longrightarrow>
      readFeatures gf (Feature f # rest) (ts, bb) =
        readFeatures (Some k) rest (ts @ [\<lparr>geoid = propertyString f k, geometry = g\<rparr>], bb))
   \<and> (loadCensusTractShapefiles rbushLoad listing = Inr si \<and> i < length (tracts si)
        \<and> extractAllCoordinates (geometry (tracts si ! i)) = [] \<longrightarrow>
      items si ! i = \<lparr>minX = 0, minY = 0, maxX = 0, maxY = 0, item_id = i\<rparr>
      \<and> (treeKeepsItems rbushLoad \<longrightarrow> items si ! i \<in> set (index si)))"
proof (intro conjI impI)
  assume "resolveGeoidField gf f = Some k \<and> validGeoid (propertyString f k) \<and> geometry_of f = Some g
      \<and> extractAllCoordinates g = []"
  then show "readFeatures gf (Feature f # rest) (ts, bb) =
        readFeatures (Some k) rest (ts @ [\<lparr>geoid = propertyString f k, geometry = g\<rparr>], bb)"
    by simp
next
  assume a: "loadCensusTractShapefiles rbushLoad listing = Inr si \<and> i < length (tracts si)
        \<and> extractAllCoordinates (geometry (tracts si ! i)) = []"
  note l = load_Inr [of rbushLoad listing si]
  show it: "items si ! i = \<lparr>minX = 0, minY = 0, maxX = 0, maxY = 0, item_id = i\<rparr>"
    using a l(3) by (simp add: nth_buildItems extractBounds_def)
  assume "treeKeepsItems rbushLoad"
  then show "items si ! i \<in> set (index si)"
    using a l(3) candidates_in_range(1) [of rbushLoad listing si] by simp
qed

text \<open>
  A feature with a valid identifier and a polygon without rings, alone in its source.
\<close>

theorem ringless_polygon_kept_witness:
  "resolveGeoidField None emptyFeature = Some ''GEOID''
   \<and> validGeoid (propertyString emptyFeature ''GEOID'')
   \<and> geometry_of emptyFeature = Some (Polygon [])
   \<and> extractAllCoordinates (Polygon []) = []
   \<and> readFeatures None [Feature emptyFeature] ([], (180, 90, - 180, - 90))
       = ([\<lparr>geoid = ''00000000003'', geometry = Polygon []\<rparr>], (180, 90, - 180, - 90))
   \<and> loadCensusTractShapefiles Inr (Inr [stateDir [Feature emptyFeature]]) = Inr emptyIndex
   \<and> 0 < length (tracts emptyIndex)
   \<and> extractAllCoordinates (geometry (tracts emptyIndex ! 0)) = []
   \<and> treeKeepsItems Inr
   \<and> items emptyIndex ! 0 = \<lparr>minX = 0, minY = 0, maxX = 0, maxY = 0, item_id = 0\<rparr>
   \<and> items emptyIndex ! 0 \<in> set (index emptyIndex)"
proof -
  have a: "resolveGeoidField None emptyFeature = Some ''GEOID''"
    "validGeoid (propertyString emptyFeature ''GEOID'')"
    "geometry_of emptyFeature = Some (Polygon [])"
    "extractAllCoordinates (Polygon []) = []"
    by (simp_all add: load_eval emptyFeature_def emptyIndex_def)
  have b: "loadCensusTractShapefiles Inr (Inr [stateDir [Feature emptyFeature]]) = Inr emptyIndex"
    "0 < length (tracts emptyIndex)"
    "extractAllCoordinates (geometry (tracts emptyIndex ! 0)) = []"
    by (simp_all add: load_eval emptyFeature_def emptyIndex_def)
  have k: "treeKeepsItems Inr"
    by (simp add: treeKeepsItems_def)
  note t = ringless_polygon_kept [of None emptyFeature "''GEOID''" "Polygon []" "[]" "[]"
      "(180, 90, - 180, - 90)" Inr "Inr [stateDir [Feature emptyFeature]]" emptyIndex 0]
  have c1: "readFeatures None [Feature emptyFeature] ([], (180, 90, - 180, - 90)) =
        readFeatures (Some ''GEOID'') []
          ([] @ [\<lparr>geoid = propertyString emptyFeature ''GEOID'', geometry = Polygon []\<rparr>],
           (180, 90, - 180, - 90))"
    using t a by blast
  have c2: "items emptyIndex ! 0 = \<lparr>minX = 0, minY = 0, maxX = 0, maxY = 0, item_id = 0\<rparr>"
    "items emptyIndex ! 0 \<in> set (index emptyIndex)"
    using t b k by blast+
  have c1': "readFeatures None [Feature emptyFeature] ([], (180, 90, - 180, - 90))
       = ([\<lparr>geoid = ''00000000003'', geometry = Polygon []\<rparr>], (180, 90, - 180, - 90))"
    unfolding c1 by (simp add: propertyString_def emptyFeature_def)
  show ?thesis
    using a b k c1' c2 by (intro conjI)
qed

text \<open>
  C4, as the spec states it, fails: the first record of the first source has no
  identifier field, and the load succeeds with the tracts of the second source.
\<close>

theorem missing_field_counterexample:
  "detectGeoidField noFieldFeature = None
   \<and> loadCensusTractShapefiles Inr
        (Inr [noFieldDir, stateDir [Feature (squareFeature ''00000000001'')]]) = Inr squareIndex"
  by (simp add: load_eval noFieldFeature_def noFieldDir_def)

text \<open>
  C4, amended. When no identifier field is found on the first record of a source, the
  source is abandoned and contributes nothing, and the load goes on with the sources
  that follow. A record whose identifier is not eleven digits is skipped and the loop
  goes on with the next record. The load fails, with the error of an empty tract
  list, when no source has contributed a tract.
\<close>

theorem missing_field_skips_source:
  "(isDirectory d \<and> startsWith ''state_'' (name d) \<and> shp d = Opened (Feature f # rest)
      \<and> detectGeoidField f = None \<longrightarrow> scanDirs (d # ds) acc = scanDirs ds acc)
   \<and> (resolveGeoidField gf f' = Some k \<and> \<not> validGeoid (propertyString f' k) \<longrightarrow>
        readFeatures gf (Feature f' # rest') (ts, bb) = readFeatures (Some k) rest' (ts, bb))
   \<and> (scanDirs dirs ([], (180, 90, - 180, - 90)) = Inr ([], bb') \<longrightarrow>
        loadCensusTractShapefiles rbushLoad (Inr dirs) =
          Inl (Error ''No census tracts loaded. Run: npm run download-shapefiles''))"
  by (cases acc) (simp add: resolveGeoidField_def loadCensusTractShapefiles_def)

text \<open>
  A source whose first record has no identifier field, followed by a source with one
  tract; a record with the identifier 123 before a valid record; and the first source
  alone, on which the load fails.
\<close>

theorem missing_field_skips_source_witness:
  "isDirectory noFieldDir \<and> startsWith ''state_'' (name noFieldDir)
   \<and> shp noFieldDir = Opened (Feature noFieldFeature # [])
   \<and> detectGeoidField noFieldFeature = None
   \<and> scanDirs (noFieldDir # [stateDir [Feature (squareFeature ''00000000001'')]])
        ([], (180, 90, - 180, - 90))
       = scanDirs [stateDir [Feature (squareFeature ''00000000001'')]] ([], (180, 90, - 180, - 90))
   \<and> resolveGeoidField (Some ''GEOID'') (squareFeature ''123'') = Some ''GEOID''
   \<and> \<not> validGeoid (propertyString (squareFeature ''123'') ''GEOID'')
   \<and> readFeatures (Some ''GEOID'')
        (Feature (squareFeature ''123'') # [Feature (squareFeature ''00000000001'')])
        ([], (180, 90, - 180, - 90))
       = readFeatures (Some ''GEOID'') [Feature (squareFeature ''00000000001'')]
           ([], (180, 90, - 180, - 90))
   \<and> scanDirs [noFieldDir] ([], (180, 90, - 180, - 90)) = Inr ([], (180, 90, - 180, - 90))
   \<and> loadCensusTractShapefiles Inr (Inr [noFieldDir]) =
       Inl (Error ''No census tracts loaded. Run: npm run download-shapefiles'')"
proof -
  have a: "isDirectory noFieldDir" "startsWith ''state_'' (name noFieldDir)"
    "shp noFieldDir = Opened (Feature noFieldFeature # [])"
    "detectGeoidField noFieldFeature = None"
    by (simp_all add: load_eval noFieldFeature_def noFieldDir_def)
  have b: "resolveGeoidField (Some ''GEOID'') (squareFeature ''123'') = Some ''GEOID''"
    "\<not> validGeoid (propertyString (squareFeature ''123'') ''GEOID'')"
    by (simp_all add: load_eval noFieldFeature_def noFieldDir_def)
  have c: "scanDirs [noFieldDir] ([], (180, 90, - 180, - 90)) = Inr ([], (180, 90, - 180, - 90))"
    by (simp add: load_eval noFieldFeature_def noFieldDir_def)
  note t = missing_field_skips_source [where d = noFieldDir and f = noFieldFeature
      and rest = "[]" and ds = "[stateDir [Feature (squareFeature ''00000000001'')]]"
      and acc = "([], (180, 90, - 180, - 90))" and gf = "Some ''GEOID''"
      and f' = "squareFeature ''123''" and k = "''GEOID''"
      and rest' = "[Feature (squareFeature ''00000000001'')]" and ts = "[]"
      and bb = "(180, 90, - 180, - 90)" and dirs = "[noFieldDir]"
      and bb' = "(180, 90, - 180, - 90)" and rbushLoad = Inr]
  show ?thesis
    using t a b c by blast
qed

end
